theory Spec2Isabelle
  imports Complex_Main "HOL-Library.Word"
begin

unbundle bit_operations_syntax

section \<open>The marker table (mp.py)\<close>

text \<open>
  \<^verbatim>\<open>mp.py\<close> declares five size constants and two enumerations. The two enumerations are
  different classes: a member of \<^verbatim>\<open>MsgPackMarker\<close> is never a member of \<^verbatim>\<open>MsgPackType\<close>.
  The member \<^verbatim>\<open>Nil\<close> exists in both enumerations and clashes with the empty list of HOL,
  so it is called \<open>NilType\<close> and \<open>NilMarker\<close> here.
\<close>

definition INT_MAX_VALUE :: int where
  "INT_MAX_VALUE = 2 ^ 64 - 1"

definition BIN_MAX_LENGTH :: int where
  "BIN_MAX_LENGTH = 2 ^ 32 - 1"

definition STR_MAX_BYTE_LENGTH :: int where
  "STR_MAX_BYTE_LENGTH = 2 ^ 32 - 1"

definition ARRAY_MAX_ELM_COUNT :: int where
  "ARRAY_MAX_ELM_COUNT = 2 ^ 32 - 1"

definition MAP_MAX_KV_ASSOC :: int where
  "MAP_MAX_KV_ASSOC = 2 ^ 32 - 1"

datatype MsgPackType =
    Integer | NilType | Boolean | Float | RawString | RawBinary | Array | Map | Ext

datatype MsgPackMarker =
    PositiveFixInt | NegativeFixInt | FixMap | FixArray | FixStr
  | NilMarker | UNUSED | BoolFalse | BoolTrue
  | Bin8 | Bin16 | Bin32
  | Ext8 | Ext16 | Ext32
  | Float32 | Float64
  | UInt8 | UInt16 | UInt32 | UInt64
  | Int8 | Int16 | Int32 | Int64
  | FixExt1 | FixExt2 | FixExt4 | FixExt8 | FixExt16
  | Str8 | Str16 | Str32
  | Array16 | Array32
  | Map16 | Map32

text \<open>\<^verbatim>\<open>marker.value\<close>: the byte each member of \<^verbatim>\<open>MsgPackMarker\<close> stands for.\<close>

fun marker_value :: "MsgPackMarker \<Rightarrow> int" where
  "marker_value PositiveFixInt = 0x00"
| "marker_value NegativeFixInt = 0xE0"
| "marker_value FixMap = 0x80"
| "marker_value FixArray = 0x90"
| "marker_value FixStr = 0xA0"
| "marker_value NilMarker = 0xC0"
| "marker_value UNUSED = 0xC1"
| "marker_value BoolFalse = 0xC2"
| "marker_value BoolTrue = 0xC3"
| "marker_value Bin8 = 0xC4"
| "marker_value Bin16 = 0xC5"
| "marker_value Bin32 = 0xC6"
| "marker_value Ext8 = 0xC7"
| "marker_value Ext16 = 0xC8"
| "marker_value Ext32 = 0xC9"
| "marker_value Float32 = 0xCA"
| "marker_value Float64 = 0xCB"
| "marker_value UInt8 = 0xCC"
| "marker_value UInt16 = 0xCD"
| "marker_value UInt32 = 0xCE"
| "marker_value UInt64 = 0xCF"
| "marker_value Int8 = 0xD0"
| "marker_value Int16 = 0xD1"
| "marker_value Int32 = 0xD2"
| "marker_value Int64 = 0xD3"
| "marker_value FixExt1 = 0xD4"
| "marker_value FixExt2 = 0xD5"
| "marker_value FixExt4 = 0xD6"
| "marker_value FixExt8 = 0xD7"
| "marker_value FixExt16 = 0xD8"
| "marker_value Str8 = 0xD9"
| "marker_value Str16 = 0xDA"
| "marker_value Str32 = 0xDB"
| "marker_value Array16 = 0xDC"
| "marker_value Array32 = 0xDD"
| "marker_value Map16 = 0xDE"
| "marker_value Map32 = 0xDF"

text \<open>
  The call \<^verbatim>\<open>MsgPackMarker(value)\<close> looks a member up by its value; Python raises
  \<^verbatim>\<open>ValueError\<close> when no member has that value, which is \<open>None\<close> here.
\<close>

definition all_markers :: "MsgPackMarker list" where
  "all_markers =
    [PositiveFixInt, NegativeFixInt, FixMap, FixArray, FixStr,
     NilMarker, UNUSED, BoolFalse, BoolTrue,
     Bin8, Bin16, Bin32, Ext8, Ext16, Ext32, Float32, Float64,
     UInt8, UInt16, UInt32, UInt64, Int8, Int16, Int32, Int64,
     FixExt1, FixExt2, FixExt4, FixExt8, FixExt16,
     Str8, Str16, Str32, Array16, Array32, Map16, Map32]"

definition MsgPackMarker_of_value :: "int \<Rightarrow> MsgPackMarker option" where
  "MsgPackMarker_of_value v = find (\<lambda>m. marker_value m = v) all_markers"

section \<open>Python values, exceptions and the struct module\<close>

type_synonym byte = "8 word"

type_synonym buffer = "byte list"

text \<open>
  The exceptions the code can raise, by their Python names: \<^verbatim>\<open>assert\<close> raises
  \<open>AssertionError\<close>, \<^verbatim>\<open>struct.pack\<close> and \<^verbatim>\<open>struct.unpack\<close> raise \<^verbatim>\<open>struct.error\<close>
  (\<open>StructError\<close>) on a number out of the range of its format and on a byte string of the
  wrong size, packing a float too large for binary32 raises \<open>OverflowError\<close>,
  \<^verbatim>\<open>_write_any\<close> and the enumeration lookup raise \<open>ValueError\<close>, encoding a lone
  surrogate to UTF-8 raises \<open>UnicodeEncodeError\<close>, and \<^verbatim>\<open>bytearray\<close> has no method
  \<^verbatim>\<open>encode\<close> (\<open>AttributeError\<close>).
\<close>

datatype error =
    AssertionError | StructError | OverflowError | ValueError
  | UnicodeEncodeError | AttributeError

text \<open>Sequencing of fallible steps: the first exception ends the call.\<close>

definition and_then :: "error + 'a \<Rightarrow> ('a \<Rightarrow> error + 'b) \<Rightarrow> error + 'b" where
  "and_then r f = (case r of Inl e \<Rightarrow> Inl e | Inr x \<Rightarrow> f x)"

text \<open>
  The argument \<^verbatim>\<open>t\<close> of the write methods is annotated \<^verbatim>\<open>MsgPackType\<close>, but every
  caller passes a member of \<^verbatim>\<open>MsgPackMarker\<close>, and the methods compare it with markers.
  Both kinds of member are arguments the methods can receive.
\<close>

datatype enum_member = Marker MsgPackMarker | TypeMember MsgPackType

text \<open>
  \<^verbatim>\<open>t in MsgPackType\<close>: enumeration containment holds for the members of that class only.
\<close>

fun in_MsgPackType :: "enum_member \<Rightarrow> bool" where
  "in_MsgPackType (Marker m) = False"
| "in_MsgPackType (TypeMember ty) = True"

text \<open>
  A Python value. \<^verbatim>\<open>bool\<close> is a subclass of \<^verbatim>\<open>int\<close>: \<^verbatim>\<open>isinstance(True, int)\<close>
  holds and \<^verbatim>\<open>True\<close> counts as 1 in arithmetic. A \<^verbatim>\<open>str\<close> is a sequence of Unicode code
  points (its \<^verbatim>\<open>len\<close> counts code points, not bytes); a \<^verbatim>\<open>float\<close> is an IEEE-754
  binary64, kept as its bit pattern; a \<^verbatim>\<open>dict\<close> is the list of its items in insertion
  order.
\<close>

datatype pyval =
    PyInt int
  | PyBool bool
  | PyStr "nat list"
  | PyFloat "64 word"
  | PyList "pyval list"
  | PyDict "(pyval \<times> pyval) list"
  | PyNone
  | PyBytes "byte list"
  | PyTuple "pyval list"

subsection \<open>struct.pack and struct.unpack on integers\<close>

text \<open>The \<open>n\<close> low bytes of an integer, most significant first.\<close>

fun be_bytes :: "nat \<Rightarrow> int \<Rightarrow> byte list" where
  "be_bytes 0 x = []"
| "be_bytes (Suc n) x = be_bytes n (x div 256) @ [word_of_int x]"

text \<open>
  \<^verbatim>\<open>struct.pack\<close> with an integer format of \<open>n\<close> bytes raises \<^verbatim>\<open>struct.error\<close> for a
  number outside the range of the format: \<^verbatim>\<open>B\<close>, \<^verbatim>\<open>H\<close>, \<^verbatim>\<open>I\<close>, \<^verbatim>\<open>Q\<close> are unsigned
  (1, 2, 4, 8 bytes), \<^verbatim>\<open>b\<close> is a signed byte.
\<close>

definition pack_unsigned :: "nat \<Rightarrow> int \<Rightarrow> error + byte list" where
  "pack_unsigned n x =
     (if 0 \<le> x \<and> x < 2 ^ (8 * n) then Inr (be_bytes n x) else Inl StructError)"

definition pack_signed :: "nat \<Rightarrow> int \<Rightarrow> error + byte list" where
  "pack_signed n x =
     (if - (2 ^ (8 * n - 1)) \<le> x \<and> x < 2 ^ (8 * n - 1)
      then Inr (be_bytes n x) else Inl StructError)"

text \<open>The value of a byte string read as a big-endian unsigned number.\<close>

fun from_be :: "int \<Rightarrow> byte list \<Rightarrow> int" where
  "from_be acc [] = acc"
| "from_be acc (b # bs) = from_be (acc * 256 + uint b) bs"

text \<open>
  \<^verbatim>\<open>struct.unpack\<close> raises \<^verbatim>\<open>struct.error\<close> unless the byte string has exactly the size of
  the format. The signed formats read two's complement.
\<close>

definition unpack_unsigned :: "nat \<Rightarrow> byte list \<Rightarrow> error + int" where
  "unpack_unsigned n bs = (if length bs = n then Inr (from_be 0 bs) else Inl StructError)"

definition unpack_signed :: "nat \<Rightarrow> byte list \<Rightarrow> error + int" where
  "unpack_signed n bs =
     (if length bs = n
      then Inr (let u = from_be 0 bs in if u < 2 ^ (8 * n - 1) then u else u - 2 ^ (8 * n))
      else Inl StructError)"

text \<open>\<^verbatim>\<open>int.from_bytes(bs, "little")\<close>; the value of the empty byte string is 0.\<close>

fun int_from_bytes_little :: "byte list \<Rightarrow> int" where
  "int_from_bytes_little [] = 0"
| "int_from_bytes_little (b # bs) = uint b + 256 * int_from_bytes_little bs"

subsection \<open>struct.pack and struct.unpack on floats\<close>

text \<open>
  A Python \<^verbatim>\<open>float\<close> is a binary64: one sign bit, 11 exponent bits, 52 fraction bits.
  The format \<^verbatim>\<open>d\<close> writes the eight bytes of the pattern. The format \<^verbatim>\<open>f\<close> converts to
  binary32 (one sign bit, 8 exponent bits, 23 fraction bits) as the C cast does, rounding
  to nearest with ties to even, and raises \<^verbatim>\<open>OverflowError\<close> when a finite number rounds
  to infinity. A NaN keeps the high bits of its payload and becomes quiet, as the
  conversion instruction of the processor leaves it.
\<close>

definition f64_sign :: "64 word \<Rightarrow> nat" where
  "f64_sign d = unat d div 2 ^ 63"

definition f64_exp :: "64 word \<Rightarrow> nat" where
  "f64_exp d = unat d div 2 ^ 52 mod 2 ^ 11"

definition f64_frac :: "64 word \<Rightarrow> nat" where
  "f64_frac d = unat d mod 2 ^ 52"

text \<open>\<open>n / 2 ^ k\<close> rounded to the nearest natural number, a tie to the even one.\<close>

definition round_shift :: "nat \<Rightarrow> nat \<Rightarrow> nat" where
  "round_shift n k =
     (let q = n div 2 ^ k; r = n mod 2 ^ k
      in if 2 * r > 2 ^ k \<or> (2 * r = 2 ^ k \<and> odd q) then q + 1 else q)"

text \<open>
  The binary32 pattern of a binary64, as the sign bit plus the magnitude bits. For a
  normal result the rounded 24-bit significand is added to the exponent field less one,
  so that a significand rounded up to \<open>2 ^ 24\<close> carries into the exponent; a number below
  the normal range of binary32 is shifted further and gives a subnormal (or zero); a
  binary64 subnormal is far below half of the smallest binary32 subnormal and gives zero.
\<close>

definition f64_to_f32 :: "64 word \<Rightarrow> error + 32 word" where
  "f64_to_f32 d =
     (let e = f64_exp d; m = f64_frac d; s = f64_sign d * 2 ^ 31
      in if e = 0x7FF then
           (if m = 0 then Inr (of_nat (s + 0x7F800000))
            else Inr (of_nat (s + 0x7FC00000 + m div 2 ^ 29 mod 2 ^ 22)))
         else if e = 0 then Inr (of_nat s)
         else
           let sig = 2 ^ 52 + m;
               mag = (if 897 \<le> e then (e - 897) * 2 ^ 23 + round_shift sig 29
                      else round_shift sig (926 - e))
           in if 0x7F800000 \<le> mag then Inl OverflowError else Inr (of_nat (s + mag)))"

text \<open>The position of the highest set bit of a positive number.\<close>

fun msb_pos :: "nat \<Rightarrow> nat" where
  "msb_pos n = (if n < 2 then 0 else Suc (msb_pos (n div 2)))"

text \<open>The binary64 pattern of a binary32: exact, a binary32 subnormal is normalised.\<close>

definition f32_to_f64 :: "32 word \<Rightarrow> 64 word" where
  "f32_to_f64 p =
     (let e = unat p div 2 ^ 23 mod 2 ^ 8; m = unat p mod 2 ^ 23;
          s = unat p div 2 ^ 31 * 2 ^ 63
      in if e = 0xFF then
           (if m = 0 then of_nat (s + 0x7FF0000000000000)
            else of_nat (s + 0x7FF8000000000000 + m mod 2 ^ 22 * 2 ^ 29))
         else if e = 0 then
           (if m = 0 then of_nat s
            else let k = msb_pos m
                 in of_nat (s + (k + 874) * 2 ^ 52 + (m - 2 ^ k) * 2 ^ (52 - k)))
         else of_nat (s + (e + 896) * 2 ^ 52 + m * 2 ^ 29))"

text \<open>
  A binary32 pattern is a NaN when its exponent field is all ones and its fraction is not
  zero.
\<close>

definition f32_is_nan :: "32 word \<Rightarrow> bool" where
  "f32_is_nan p = (unat p div 2 ^ 23 mod 2 ^ 8 = 0xFF \<and> unat p mod 2 ^ 23 \<noteq> 0)"

definition pack_f :: "64 word \<Rightarrow> error + byte list" where
  "pack_f x = and_then (f64_to_f32 x) (\<lambda>p. Inr (be_bytes 4 (uint p)))"

definition pack_d :: "64 word \<Rightarrow> error + byte list" where
  "pack_d x = Inr (be_bytes 8 (uint x))"

definition unpack_f :: "byte list \<Rightarrow> error + 64 word" where
  "unpack_f bs =
     (if length bs = 4 then Inr (f32_to_f64 (word_of_int (from_be 0 bs))) else Inl StructError)"

definition unpack_d :: "byte list \<Rightarrow> error + 64 word" where
  "unpack_d bs = (if length bs = 8 then Inr (word_of_int (from_be 0 bs)) else Inl StructError)"

text \<open>
  The rational number a finite binary64 pattern stands for, and the literal \<^verbatim>\<open>3.14\<close> of
  the test \<^verbatim>\<open>test_float\<close>: Python reads a decimal literal as the nearest binary64.
\<close>

definition f64_value :: "64 word \<Rightarrow> rat" where
  "f64_value d =
     (if f64_sign d = 1 then - 1 else 1) *
     (if f64_exp d = 0 then of_nat (f64_frac d) / 2 ^ 1074
      else of_nat (2 ^ 52 + f64_frac d) * 2 ^ f64_exp d / 2 ^ 1075)"

definition float_3_14 :: "64 word" where
  "float_3_14 = 0x40091EB851EB851F"

subsection \<open>str.encode("utf8")\<close>

text \<open>
  The UTF-8 bytes of one code point. A Python string can hold a lone surrogate
  (U+D800 to U+DFFF), and encoding it raises \<^verbatim>\<open>UnicodeEncodeError\<close>. The code points of
  a Python string end at U+10FFFF.
\<close>

definition utf8_char :: "nat \<Rightarrow> error + byte list" where
  "utf8_char c =
     (if c < 0x80 then Inr [of_nat c]
      else if c < 0x800 then Inr [of_nat (0xC0 + c div 64), of_nat (0x80 + c mod 64)]
      else if 0xD800 \<le> c \<and> c \<le> 0xDFFF then Inl UnicodeEncodeError
      else if c < 0x10000 then
        Inr [of_nat (0xE0 + c div 4096), of_nat (0x80 + c div 64 mod 64), of_nat (0x80 + c mod 64)]
      else
        Inr [of_nat (0xF0 + c div 262144), of_nat (0x80 + c div 4096 mod 64),
             of_nat (0x80 + c div 64 mod 64), of_nat (0x80 + c mod 64)])"

fun utf8_encode :: "nat list \<Rightarrow> error + byte list" where
  "utf8_encode [] = Inr []"
| "utf8_encode (c # cs) =
     and_then (utf8_char c) (\<lambda>bs. and_then (utf8_encode cs) (\<lambda>rest. Inr (bs @ rest)))"

text \<open>
  The first argument of \<^verbatim>\<open>write_str\<close> is annotated \<^verbatim>\<open>str | bytearray\<close>.
  \<^verbatim>\<open>len(value)\<close> is the number of code points of a string and the number of bytes of a
  byte string; \<^verbatim>\<open>value[:n]\<close> keeps the first \<open>n\<close> of them.
\<close>

datatype str_or_bytes = Str "nat list" | Bytes "byte list"

fun len :: "str_or_bytes \<Rightarrow> int" where
  "len (Str s) = int (length s)"
| "len (Bytes b) = int (length b)"

text \<open>\<^verbatim>\<open>value[:n].encode("utf8")\<close>: a byte string has no method \<^verbatim>\<open>encode\<close>.\<close>

fun slice_encode :: "str_or_bytes \<Rightarrow> int \<Rightarrow> error + byte list" where
  "slice_encode (Str s) n = utf8_encode (take (nat n) s)"
| "slice_encode (Bytes b) n = Inl AttributeError"

text \<open>
  \<^verbatim>\<open>value[:n].encode("utf8") if isinstance(value, str) else value[:n]\<close>, the payload of
  the three length-prefixed cases of \<^verbatim>\<open>write_str\<close>.
\<close>

fun slice_payload :: "str_or_bytes \<Rightarrow> int \<Rightarrow> error + byte list" where
  "slice_payload (Str s) n = utf8_encode (take (nat n) s)"
| "slice_payload (Bytes b) n = Inr (take (nat n) b)"

section \<open>The encoder (class MPWrite)\<close>

text \<open>
  The object holds one \<^verbatim>\<open>BytesIO\<close> buffer, written at its end. A method takes the
  bytes written so far and returns either the exception it raises or the buffer after the
  call. The leading underscore of \<^verbatim>\<open>_write_single\<close>, \<^verbatim>\<open>_write_marker\<close>,
  \<^verbatim>\<open>_write_pair\<close> and \<^verbatim>\<open>_write_any\<close> is dropped.
\<close>

definition write_single :: "buffer \<Rightarrow> byte list \<Rightarrow> error + buffer" where
  "write_single buf bs = Inr (buf @ bs)"

definition write_marker :: "buffer \<Rightarrow> MsgPackMarker \<Rightarrow> error + buffer" where
  "write_marker buf marker = and_then (pack_unsigned 1 (marker_value marker)) (write_single buf)"

definition write_pair :: "buffer \<Rightarrow> MsgPackMarker \<Rightarrow> byte list \<Rightarrow> error + buffer" where
  "write_pair buf marker bs = and_then (write_marker buf marker) (\<lambda>buf'. write_single buf' bs)"

text \<open>
  \<^verbatim>\<open>write_integer\<close>: the assertion rejects a member of \<^verbatim>\<open>MsgPackType\<close>; the
  \<^verbatim>\<open>match\<close> has no default case, so any other marker falls through and the method
  returns without writing. The 8-bit case packs with the signed format \<^verbatim>\<open>b\<close>.
\<close>

definition write_integer :: "buffer \<Rightarrow> int \<Rightarrow> enum_member \<Rightarrow> error + buffer" where
  "write_integer buf v t =
     (if in_MsgPackType t then Inl AssertionError
      else case t of
        Marker PositiveFixInt \<Rightarrow>
          and_then (pack_unsigned 1 (marker_value PositiveFixInt OR (v AND 0x7F))) (write_single buf)
      | Marker NegativeFixInt \<Rightarrow>
          and_then (pack_unsigned 1 (marker_value NegativeFixInt OR (v AND 0x1F))) (write_single buf)
      | Marker UInt8 \<Rightarrow> and_then (pack_signed 1 (v AND 0xFF)) (write_pair buf UInt8)
      | Marker Int8 \<Rightarrow> and_then (pack_signed 1 (v AND 0xFF)) (write_pair buf Int8)
      | Marker UInt16 \<Rightarrow> and_then (pack_unsigned 2 (v AND 0xFFFF)) (write_pair buf UInt16)
      | Marker Int16 \<Rightarrow> and_then (pack_unsigned 2 (v AND 0xFFFF)) (write_pair buf Int16)
      | Marker UInt32 \<Rightarrow> and_then (pack_unsigned 4 (v AND 0xFFFFFFFF)) (write_pair buf UInt32)
      | Marker Int32 \<Rightarrow> and_then (pack_unsigned 4 (v AND 0xFFFFFFFF)) (write_pair buf Int32)
      | Marker UInt64 \<Rightarrow>
          and_then (pack_unsigned 8 (v AND 0xFFFFFFFFFFFFFFFF)) (write_pair buf UInt64)
      | Marker Int64 \<Rightarrow>
          and_then (pack_unsigned 8 (v AND 0xFFFFFFFFFFFFFFFF)) (write_pair buf Int64)
      | _ \<Rightarrow> Inr buf)"

text \<open>The markers of the integer families, the ones \<^verbatim>\<open>write_integer\<close> has a case for.\<close>

definition integer_markers :: "MsgPackMarker set" where
  "integer_markers =
     {PositiveFixInt, NegativeFixInt, UInt8, UInt16, UInt32, UInt64, Int8, Int16, Int32, Int64}"

text \<open>
  \<^verbatim>\<open>write_float\<close>: binary32 or binary64 after the marker; any other marker falls
  through the \<^verbatim>\<open>match\<close>.
\<close>

definition write_float :: "buffer \<Rightarrow> 64 word \<Rightarrow> enum_member \<Rightarrow> error + buffer" where
  "write_float buf v t =
     (if in_MsgPackType t then Inl AssertionError
      else case t of
        Marker Float32 \<Rightarrow> and_then (pack_f v) (write_pair buf Float32)
      | Marker Float64 \<Rightarrow> and_then (pack_d v) (write_pair buf Float64)
      | _ \<Rightarrow> Inr buf)"

text \<open>
  The three length-prefixed cases of \<^verbatim>\<open>write_str\<close> differ in the width \<open>w\<close> of the
  prefix only (the mask is \<open>2 ^ (8 * w) - 1\<close>): the marker, the masked length
  big-endian, then the first (masked length) items of the value, UTF-8 encoded when the
  value is a string.
\<close>

definition write_prefixed ::
  "buffer \<Rightarrow> str_or_bytes \<Rightarrow> MsgPackMarker \<Rightarrow> nat \<Rightarrow> error + buffer" where
  "write_prefixed buf v marker w =
     (let n = len v AND (2 ^ (8 * w) - 1)
      in and_then (write_marker buf marker) (\<lambda>buf1.
         and_then (pack_unsigned w n) (\<lambda>prefix.
         and_then (write_single buf1 prefix) (\<lambda>buf2.
         and_then (slice_payload v n) (write_single buf2)))))"

text \<open>
  \<^verbatim>\<open>write_str\<close>. The fixstr case puts the low five bits of the length in the marker
  byte and then writes the whole value (the slice is masked with 0xFFFFFFFF), always
  through \<^verbatim>\<open>encode\<close>.
\<close>

definition write_str :: "buffer \<Rightarrow> str_or_bytes \<Rightarrow> enum_member \<Rightarrow> error + buffer" where
  "write_str buf v t =
     (if in_MsgPackType t then Inl AssertionError
      else case t of
        Marker FixStr \<Rightarrow>
          and_then (pack_unsigned 1 (marker_value FixStr OR (len v AND 0x1F))) (\<lambda>head.
          and_then (write_single buf head) (\<lambda>buf1.
          and_then (slice_encode v (len v AND 0xFFFFFFFF)) (write_single buf1)))
      | Marker Str8 \<Rightarrow> write_prefixed buf v Str8 1
      | Marker Bin8 \<Rightarrow> write_prefixed buf v Bin8 1
      | Marker Str16 \<Rightarrow> write_prefixed buf v Str16 2
      | Marker Bin16 \<Rightarrow> write_prefixed buf v Bin16 2
      | Marker Str32 \<Rightarrow> write_prefixed buf v Str32 4
      | Marker Bin32 \<Rightarrow> write_prefixed buf v Bin32 4
      | _ \<Rightarrow> Inr buf)"

definition write_bin :: "buffer \<Rightarrow> str_or_bytes \<Rightarrow> enum_member \<Rightarrow> error + buffer" where
  "write_bin buf v t = write_str buf v t"

definition write_bool :: "buffer \<Rightarrow> bool \<Rightarrow> error + buffer" where
  "write_bool buf v = write_marker buf (if v then BoolTrue else BoolFalse)"

definition write_nil :: "buffer \<Rightarrow> error + buffer" where
  "write_nil buf = write_marker buf NilMarker"

text \<open>
  The head of \<^verbatim>\<open>write_array\<close>, before its loop: the \<^verbatim>\<open>match\<close> on the marker, with
  the length masked to the width of the family. Any other marker writes no head.
\<close>

definition write_array_head :: "buffer \<Rightarrow> int \<Rightarrow> enum_member \<Rightarrow> error + buffer" where
  "write_array_head buf n t =
     (case t of
        Marker FixArray \<Rightarrow>
          and_then (pack_unsigned 1 (marker_value FixArray OR (n AND 0xF))) (write_single buf)
      | Marker Array16 \<Rightarrow>
          and_then (write_marker buf Array16) (\<lambda>buf1.
          and_then (pack_unsigned 2 (n AND 0xFFFF)) (write_single buf1))
      | Marker Array32 \<Rightarrow>
          and_then (write_marker buf Array32) (\<lambda>buf1.
          and_then (pack_unsigned 4 (n AND 0xFFFFFFFF)) (write_single buf1))
      | _ \<Rightarrow> Inr buf)"

text \<open>The head of \<^verbatim>\<open>write_map\<close>, before its loop: the assertion and the length ladder.\<close>

definition write_map_head :: "buffer \<Rightarrow> int \<Rightarrow> error + buffer" where
  "write_map_head buf n =
     (if n \<le> 0xFFFFFFFF then
        (if n \<le> 0xF then
           and_then (pack_unsigned 1 (marker_value FixMap OR (n AND 0xF))) (write_single buf)
         else if n > 0xF \<and> n \<le> 0xFFFF then
           and_then (write_marker buf Map16) (\<lambda>buf1.
           and_then (pack_unsigned 2 (n AND 0xFFFF)) (write_single buf1))
         else
           and_then (write_marker buf Map32) (\<lambda>buf1.
           and_then (pack_unsigned 4 (n AND 0xFFFFFFFF)) (write_single buf1)))
      else Inl AssertionError)"

text \<open>
  The branch \<^verbatim>\<open>isinstance(value, int)\<close> of \<^verbatim>\<open>_write_any\<close>: the assertion, then the
  ladder 0x7F, 0xFFFF, 0xFFFFFFFF. There is no test for a negative value and no use of
  the 8-bit or the signed markers.
\<close>

definition write_any_int :: "buffer \<Rightarrow> int \<Rightarrow> error + buffer" where
  "write_any_int buf v =
     (if v \<le> 0xFFFFFFFFFFFFFFFF then
        (if v \<le> 0x7F then write_integer buf v (Marker PositiveFixInt)
         else if v > 0x7F \<and> v \<le> 0xFFFF then write_integer buf v (Marker UInt16)
         else if v > 0xFFFF \<and> v \<le> 0xFFFFFFFF then write_integer buf v (Marker UInt32)
         else write_integer buf v (Marker UInt64))
      else Inl AssertionError)"

text \<open>
  The branch \<^verbatim>\<open>isinstance(value, str)\<close> of \<^verbatim>\<open>_write_any\<close>: the assertion is the
  strict \<^verbatim>\<open>length < 0xFFFFFFFF\<close>, and the third rung of the ladder passes \<^verbatim>\<open>FixStr\<close>.
\<close>

definition write_any_str :: "buffer \<Rightarrow> nat list \<Rightarrow> error + buffer" where
  "write_any_str buf s =
     (let n = int (length s)
      in if n < 0xFFFFFFFF then
           (if n \<le> 0xFF then write_str buf (Str s) (Marker Str8)
            else if n > 0xFF \<and> n \<le> 0xFFFF then write_str buf (Str s) (Marker Str16)
            else if n > 0xFFFF \<and> n \<le> 0xFFFFFFFF then write_str buf (Str s) (Marker FixStr)
            else write_str buf (Str s) (Marker Str32))
         else Inl AssertionError)"

text \<open>The marker \<^verbatim>\<open>arr_type\<close> that \<^verbatim>\<open>_write_any\<close> chooses for a list of \<open>n\<close> items.\<close>

definition arr_type :: "int \<Rightarrow> MsgPackMarker" where
  "arr_type n =
     (if n > 0xF \<and> n \<le> 0xFFFF then Array16 else if n > 0xFFFF then Array32 else FixArray)"

text \<open>
  \<^verbatim>\<open>_write_any\<close>, \<^verbatim>\<open>write_array\<close> and \<^verbatim>\<open>write_map\<close> call each other. The tests of
  \<^verbatim>\<open>_write_any\<close> run in the order int, str, float, bool, list, dict, None; since a
  \<^verbatim>\<open>bool\<close> is an \<^verbatim>\<open>int\<close>, a boolean takes the first branch with the value 0 or 1 and the
  branch that calls \<^verbatim>\<open>write_bool\<close> is never reached. A value of any other type
  (\<^verbatim>\<open>bytes\<close>, a tuple) raises \<^verbatim>\<open>ValueError\<close>. \<open>write_elems\<close> and \<open>write_items\<close> are
  the two \<^verbatim>\<open>for\<close> loops.
\<close>

function (sequential) write_any :: "buffer \<Rightarrow> pyval \<Rightarrow> error + buffer"
  and write_array :: "buffer \<Rightarrow> pyval list \<Rightarrow> enum_member \<Rightarrow> error + buffer"
  and write_elems :: "buffer \<Rightarrow> pyval list \<Rightarrow> error + buffer"
  and write_map :: "buffer \<Rightarrow> (pyval \<times> pyval) list \<Rightarrow> error + buffer"
  and write_items :: "buffer \<Rightarrow> (pyval \<times> pyval) list \<Rightarrow> error + buffer"
where
  "write_any buf (PyInt v) = write_any_int buf v"
| "write_any buf (PyBool b) = write_any_int buf (if b then 1 else 0)"
| "write_any buf (PyStr s) = write_any_str buf s"
| "write_any buf (PyFloat x) = write_float buf x (Marker Float32)"
| "write_any buf (PyList arr) = write_array buf arr (Marker (arr_type (int (length arr))))"
| "write_any buf (PyDict d) = write_map buf d"
| "write_any buf PyNone = write_nil buf"
| "write_any buf (PyBytes b) = Inl ValueError"
| "write_any buf (PyTuple xs) = Inl ValueError"
| "write_array buf arr t =
     (case write_array_head buf (int (length arr)) t of
        Inl e \<Rightarrow> Inl e
      | Inr buf1 \<Rightarrow> write_elems buf1 arr)"
| "write_elems buf [] = Inr buf"
| "write_elems buf (elm # rest) =
     (case write_any buf elm of
        Inl e \<Rightarrow> Inl e
      | Inr buf1 \<Rightarrow> write_elems buf1 rest)"
| "write_map buf d =
     (case write_map_head buf (int (length d)) of
        Inl e \<Rightarrow> Inl e
      | Inr buf1 \<Rightarrow> write_items buf1 d)"
| "write_items buf [] = Inr buf"
| "write_items buf ((k, v) # rest) =
     (case write_any buf k of
        Inl e \<Rightarrow> Inl e
      | Inr buf1 \<Rightarrow>
          (case write_any buf1 v of
             Inl e \<Rightarrow> Inl e
           | Inr buf2 \<Rightarrow> write_items buf2 rest))"
  by pat_completeness auto

text \<open>
  Every call descends into the value: twice the size of the value or of the list, plus
  one for the two methods that only write a head before their loop.
\<close>

termination
  by (relation "measure (\<lambda>x. case x of
        Inl (Inl (buf, v)) \<Rightarrow> 2 * size v
      | Inl (Inr (buf, arr, t)) \<Rightarrow> 2 * size_list size arr + 1
      | Inr (Inl (buf, arr)) \<Rightarrow> 2 * size_list size arr
      | Inr (Inr (Inl (buf, d))) \<Rightarrow> 2 * size_list (size_prod size size) d + 1
      | Inr (Inr (Inr (buf, d))) \<Rightarrow> 2 * size_list (size_prod size size) d)") simp_all

section \<open>The decoder (class MPRead)\<close>

text \<open>
  The reader holds the same kind of buffer; its state is the bytes from the cursor on.
  \<^verbatim>\<open>_read_and_advance(size)\<close> returns the next \<open>size\<close> bytes, fewer at the end of
  the buffer, and moves the cursor past them. A read method returns the exception it
  raises, or the value it returns with the bytes left. The \<^verbatim>\<open>print\<close> call of
  \<^verbatim>\<open>read_int\<close> writes to the standard output only and is left out.
\<close>

definition read_and_advance :: "buffer \<Rightarrow> nat \<Rightarrow> byte list \<times> buffer" where
  "read_and_advance buf n = (take n buf, drop n buf)"

text \<open>
  \<^verbatim>\<open>read_int\<close>. The two fixint families are told by their bit pattern; otherwise the
  byte is looked up in \<^verbatim>\<open>MsgPackMarker\<close> (\<^verbatim>\<open>ValueError\<close> when it is no member) and
  matched against the eight integer markers. \<^verbatim>\<open>struct.unpack\<close> returns a tuple: the
  cases \<^verbatim>\<open>UInt8\<close> and \<^verbatim>\<open>Int8\<close> return that tuple as it is, the six others take its
  item 0. The \<^verbatim>\<open>match\<close> has no default case: for any other member the method ends
  without a \<^verbatim>\<open>return\<close>, and the call gives \<^verbatim>\<open>None\<close>.
\<close>

definition read_int :: "buffer \<Rightarrow> error + (pyval \<times> buffer)" where
  "read_int buffer =
     (let (byte, buf1) = read_and_advance buffer 1;
          v = int_from_bytes_little byte
      in if v AND 0x80 = 0 then
           and_then (unpack_unsigned 1 byte) (\<lambda>x. Inr (PyInt (x AND 0x7F), buf1))
         else if v AND 0xE0 = 0xE0 then
           and_then (unpack_signed 1 byte) (\<lambda>x. Inr (PyInt x, buf1))
         else
           (case MsgPackMarker_of_value v of
              None \<Rightarrow> Inl ValueError
            | Some UInt8 \<Rightarrow>
                (let (bs, buf2) = read_and_advance buf1 1
                 in and_then (unpack_unsigned 1 bs) (\<lambda>x. Inr (PyTuple [PyInt x], buf2)))
            | Some Int8 \<Rightarrow>
                (let (bs, buf2) = read_and_advance buf1 1
                 in and_then (unpack_signed 1 bs) (\<lambda>x. Inr (PyTuple [PyInt x], buf2)))
            | Some UInt16 \<Rightarrow>
                (let (bs, buf2) = read_and_advance buf1 2
                 in and_then (unpack_unsigned 2 bs) (\<lambda>x. Inr (PyInt x, buf2)))
            | Some Int16 \<Rightarrow>
                (let (bs, buf2) = read_and_advance buf1 2
                 in and_then (unpack_signed 2 bs) (\<lambda>x. Inr (PyInt x, buf2)))
            | Some UInt32 \<Rightarrow>
                (let (bs, buf2) = read_and_advance buf1 4
                 in and_then (unpack_unsigned 4 bs) (\<lambda>x. Inr (PyInt x, buf2)))
            | Some Int32 \<Rightarrow>
                (let (bs, buf2) = read_and_advance buf1 4
                 in and_then (unpack_signed 4 bs) (\<lambda>x. Inr (PyInt x, buf2)))
            | Some UInt64 \<Rightarrow>
                (let (bs, buf2) = read_and_advance buf1 8
                 in and_then (unpack_unsigned 8 bs) (\<lambda>x. Inr (PyInt x, buf2)))
            | Some Int64 \<Rightarrow>
                (let (bs, buf2) = read_and_advance buf1 8
                 in and_then (unpack_signed 8 bs) (\<lambda>x. Inr (PyInt x, buf2)))
            | Some _ \<Rightarrow> Inr (PyNone, buf1)))"

text \<open>
  \<^verbatim>\<open>read_float\<close>: the marker byte is unpacked first (an empty read is a
  \<^verbatim>\<open>struct.error\<close>), looked up, and matched against the two float markers; again
  there is no default case.
\<close>

definition read_float :: "buffer \<Rightarrow> error + (pyval \<times> buffer)" where
  "read_float buffer =
     (let (byte, buf1) = read_and_advance buffer 1
      in and_then (unpack_unsigned 1 byte) (\<lambda>v.
           case MsgPackMarker_of_value v of
             None \<Rightarrow> Inl ValueError
           | Some Float32 \<Rightarrow>
               (let (bs, buf2) = read_and_advance buf1 4
                in and_then (unpack_f bs) (\<lambda>x. Inr (PyFloat x, buf2)))
           | Some Float64 \<Rightarrow>
               (let (bs, buf2) = read_and_advance buf1 8
                in and_then (unpack_d bs) (\<lambda>x. Inr (PyFloat x, buf2)))
           | Some _ \<Rightarrow> Inr (PyNone, buf1)))"

section \<open>The statements checked\<close>

text \<open>
  The round-trip law for one value: the bytes that \<^verbatim>\<open>_write_any\<close> writes for the value
  into an empty buffer, read from the start by a read method of \<^verbatim>\<open>MPRead\<close>, give the
  value back and leave nothing unread. \<^verbatim>\<open>MPRead\<close> has two read methods.
\<close>

definition roundtrip :: "pyval \<Rightarrow> bool" where
  "roundtrip v =
     (case write_any [] v of
        Inl e \<Rightarrow> False
      | Inr bs \<Rightarrow> read_int bs = Inr (v, []) \<or> read_float bs = Inr (v, []))"

text \<open>
  The integer ladder in the words of the specification (section 4.2): positive fixint up
  to 0x7F, negative fixint down to -32, otherwise the smallest of the 8, 16, 32 and 64
  bit families, unsigned for a value from 0 on and signed for a negative one.
\<close>

definition spec_integer_marker :: "int \<Rightarrow> MsgPackMarker option" where
  "spec_integer_marker v =
     (if 0 \<le> v then
        (if v \<le> 0x7F then Some PositiveFixInt
         else if v \<le> 0xFF then Some UInt8
         else if v \<le> 0xFFFF then Some UInt16
         else if v \<le> 0xFFFFFFFF then Some UInt32
         else if v \<le> 0xFFFFFFFFFFFFFFFF then Some UInt64
         else None)
      else
        (if - 32 \<le> v then Some NegativeFixInt
         else if - (2 ^ 7) \<le> v then Some Int8
         else if - (2 ^ 15) \<le> v then Some Int16
         else if - (2 ^ 31) \<le> v then Some Int32
         else if - (2 ^ 63) \<le> v then Some Int64
         else None))"

text \<open>
  The string ladder in the words of the specification (section 4.2), by the length of the
  string: fixstr up to 31, then the 8, 16 and 32 bit prefixed families, failure above.
\<close>

definition spec_string_marker :: "nat \<Rightarrow> MsgPackMarker option" where
  "spec_string_marker n =
     (if n \<le> 31 then Some FixStr
      else if n \<le> 0xFF then Some Str8
      else if n \<le> 0xFFFF then Some Str16
      else if n \<le> 0xFFFFFFFF then Some Str32
      else None)"

text \<open>
  The literal \<^verbatim>\<open>LI_ru\<close> of the test \<^verbatim>\<open>test_str\<close>, as its code points: 188 of them,
  most of them Cyrillic letters of two UTF-8 bytes each.
\<close>

definition LI_ru :: "nat list" where
  "LI_ru =
    [0x414, 0x430, 0x432, 0x43D, 0x43E, 0x20, 0x432, 0x44B, 0x44F, 0x441, 0x43D, 0x435, 0x43D,
    0x43E, 0x2C, 0x20, 0x447, 0x442, 0x43E, 0x20, 0x43F, 0x440, 0x438, 0x20, 0x43E, 0x446,
    0x435, 0x43D, 0x43A, 0x435, 0x20, 0x434, 0x438, 0x437, 0x430, 0x439, 0x43D, 0x430, 0x20,
    0x438, 0x20, 0x43A, 0x43E, 0x43C, 0x43F, 0x43E, 0x437, 0x438, 0x446, 0x438, 0x438, 0x20,
    0x447, 0x438, 0x442, 0x430, 0x435, 0x43C, 0x44B, 0x439, 0x20, 0x442, 0x435, 0x43A, 0x441,
    0x442, 0x20, 0x43C, 0x435, 0x448, 0x430, 0x435, 0x442, 0x20, 0x441, 0x43E, 0x441, 0x440,
    0x435, 0x434, 0x43E, 0x442, 0x43E, 0x447, 0x438, 0x442, 0x44C, 0x441, 0x44F, 0x2E, 0x4C,
    0x6F, 0x72, 0x65, 0x6D, 0x20, 0x49, 0x70, 0x73, 0x75, 0x6D, 0x20, 0x438, 0x441, 0x43F,
    0x43E, 0x43B, 0x44C, 0x437, 0x443, 0x44E, 0x442, 0x20, 0x43F, 0x43E, 0x442, 0x43E, 0x43C,
    0x443, 0x2C, 0x20, 0x447, 0x442, 0x43E, 0x20, 0x442, 0x43E, 0x442, 0x20, 0x43E, 0x431,
    0x435, 0x441, 0x43F, 0x435, 0x447, 0x438, 0x432, 0x430, 0x435, 0x442, 0x20, 0x431, 0x43E,
    0x43B, 0x435, 0x435, 0x20, 0x438, 0x43B, 0x438, 0x20, 0x43C, 0x435, 0x43D, 0x435, 0x435,
    0x20, 0x441, 0x442, 0x430, 0x43D, 0x434, 0x430, 0x440, 0x442, 0x43D, 0x43E, 0x435, 0x20,
    0x437, 0x430, 0x43F, 0x43E, 0x43B, 0x43D, 0x435, 0x43D, 0x438, 0x435, 0x20, 0x448, 0x430,
    0x431, 0x43B, 0x43E, 0x43D, 0x430]"

section \<open>Properties\<close>

subsection \<open>Sequencing, bytes and masks\<close>

lemma and_then_Inr [simp]: "and_then (Inr x) f = f x"
  by (simp add: and_then_def)

lemma and_then_Inl [simp]: "and_then (Inl e) f = Inl e"
  by (simp add: and_then_def)

lemma be_bytes_numeral:
  "be_bytes (numeral k) x = be_bytes (pred_numeral k) (x div 256) @ [word_of_int x]"
  by (simp add: numeral_eq_Suc)

lemma be_bytes_1 [simp]: "be_bytes 1 x = [word_of_int x]"
  using be_bytes.simps(2) [of 0 x] by simp

text \<open>
  Python's \<^verbatim>\<open>&\<close> with a mask of \<open>n\<close> ones keeps the value modulo \<open>2 ^ n\<close>, also for
  a negative value.
\<close>

lemma and_7F: "(x::int) AND 0x7F = x mod 2 ^ 7"
  using take_bit_eq_mask [of 7 x] by (simp add: take_bit_eq_mod mask_eq_exp_minus_1)

lemma and_FF: "(x::int) AND 0xFF = x mod 2 ^ 8"
  using take_bit_eq_mask [of 8 x] by (simp add: take_bit_eq_mod mask_eq_exp_minus_1)

lemma and_FFFF: "(x::int) AND 0xFFFF = x mod 2 ^ 16"
  using take_bit_eq_mask [of 16 x] by (simp add: take_bit_eq_mod mask_eq_exp_minus_1)

lemma and_FFFFFFFF: "(x::int) AND 0xFFFFFFFF = x mod 2 ^ 32"
  using take_bit_eq_mask [of 32 x] by (simp add: take_bit_eq_mod mask_eq_exp_minus_1)

lemma and_FFFFFFFFFFFFFFFF: "(x::int) AND 0xFFFFFFFFFFFFFFFF = x mod 2 ^ 64"
  using take_bit_eq_mask [of 64 x] by (simp add: take_bit_eq_mod mask_eq_exp_minus_1)

lemma small_and_80: "0 \<le> (v::int) \<Longrightarrow> v \<le> 0x7F \<Longrightarrow> v AND 0x80 = 0"
proof -
  assume a: "0 \<le> v" "v \<le> 0x7F"
  have "v div 2 ^ 7 = 0"
    using a by (simp add: div_pos_pos_trivial)
  then have "\<not> bit v 7"
    by (simp add: bit_iff_odd)
  then have "v AND 2 ^ 7 = 0"
    using and_exp_eq_0_iff_not_bit [of v 7] by blast
  then show ?thesis by simp
qed

text \<open>
  Unpacking what was packed: the big-endian bytes of a number in the range of the format
  read back as that number.
\<close>

lemma length_be_bytes [simp]: "length (be_bytes n x) = n"
  by (induction n arbitrary: x) simp_all

lemma from_be_append: "from_be acc (xs @ ys) = from_be (from_be acc xs) ys"
  by (induction xs arbitrary: acc) simp_all

lemma from_be_be_bytes: "from_be acc (be_bytes n x) = acc * 256 ^ n + x mod 256 ^ n"
proof (induction n arbitrary: x)
  case 0
  show ?case by simp
next
  case (Suc n)
  have "x mod (256 * 256 ^ n) = 256 * (x div 256 mod 256 ^ n) + x mod 256"
    by (rule zmod_zmult2_eq) simp
  then show ?case
    by (simp add: from_be_append Suc.IH uint_word_of_int algebra_simps)
qed

lemma unpack_pack_unsigned:
  "0 \<le> x \<Longrightarrow> x < 2 ^ (8 * n) \<Longrightarrow> unpack_unsigned n (be_bytes n x) = Inr x"
  by (simp add: unpack_unsigned_def from_be_be_bytes power_mult)

lemma MsgPackMarker_of_value_unsigned [simp]:
  "MsgPackMarker_of_value 0xCD = Some UInt16"
  "MsgPackMarker_of_value 0xCE = Some UInt32"
  "MsgPackMarker_of_value 0xCF = Some UInt64"
  by (simp_all add: MsgPackMarker_of_value_def all_markers_def)

lemma write_single_fun: "write_single buf = (\<lambda>bs. Inr (buf @ bs))"
  by (simp add: fun_eq_iff write_single_def)

lemmas write_defs = write_pair_def write_marker_def write_single_def pack_unsigned_def
  pack_signed_def

lemmas read_defs = read_int_def read_float_def read_and_advance_def unpack_unsigned_def
  unpack_signed_def MsgPackMarker_of_value_def all_markers_def

lemmas float_defs = f64_to_f32_def f64_sign_def f64_exp_def f64_frac_def round_shift_def
  f32_to_f64_def pack_f_def pack_d_def unpack_f_def unpack_d_def Let_def

subsection \<open>Writing and reading integers\<close>

lemma write_pair_UInt16: "write_pair buf UInt16 bs = Inr (buf @ 0xCD # bs)"
  by (simp add: write_pair_def write_marker_def write_single_def pack_unsigned_def)

lemma write_pair_UInt32: "write_pair buf UInt32 bs = Inr (buf @ 0xCE # bs)"
  by (simp add: write_pair_def write_marker_def write_single_def pack_unsigned_def)

lemma write_pair_UInt64: "write_pair buf UInt64 bs = Inr (buf @ 0xCF # bs)"
  by (simp add: write_pair_def write_marker_def write_single_def pack_unsigned_def)

lemma pack_unsigned_2: "0 \<le> v \<Longrightarrow> v \<le> 0xFFFF \<Longrightarrow> pack_unsigned 2 v = Inr (be_bytes 2 v)"
  unfolding pack_unsigned_def by simp

lemma pack_unsigned_4: "0 \<le> v \<Longrightarrow> v \<le> 0xFFFFFFFF \<Longrightarrow> pack_unsigned 4 v = Inr (be_bytes 4 v)"
  unfolding pack_unsigned_def by simp

lemma pack_unsigned_8: "0 \<le> v \<Longrightarrow> v \<le> 0xFFFFFFFFFFFFFFFF \<Longrightarrow> pack_unsigned 8 v = Inr (be_bytes 8 v)"
  unfolding pack_unsigned_def by simp

lemma write_integer_PositiveFixInt:
  assumes "0 \<le> v" "v \<le> 0x7F"
  shows "write_integer buf v (Marker PositiveFixInt) = Inr (buf @ [word_of_int v])"
proof -
  have "v AND 0x7F = v" using assms by (simp add: and_7F)
  then show ?thesis
    using assms by (simp add: write_integer_def pack_unsigned_def write_single_def)
qed

lemma write_integer_UInt16:
  assumes "0 \<le> v" "v \<le> 0xFFFF"
  shows "write_integer buf v (Marker UInt16) = Inr (buf @ 0xCD # be_bytes 2 v)"
proof -
  have m: "v AND 0xFFFF = v" using assms by (simp add: and_FFFF)
  have "write_integer buf v (Marker UInt16) =
      and_then (pack_unsigned 2 (v AND 0xFFFF)) (write_pair buf UInt16)"
    by (simp add: write_integer_def)
  then show ?thesis
    by (simp only: m pack_unsigned_2 [OF assms] and_then_Inr write_pair_UInt16)
qed

lemma write_integer_UInt32:
  assumes "0 \<le> v" "v \<le> 0xFFFFFFFF"
  shows "write_integer buf v (Marker UInt32) = Inr (buf @ 0xCE # be_bytes 4 v)"
proof -
  have m: "v AND 0xFFFFFFFF = v" using assms by (simp add: and_FFFFFFFF)
  have "write_integer buf v (Marker UInt32) =
      and_then (pack_unsigned 4 (v AND 0xFFFFFFFF)) (write_pair buf UInt32)"
    by (simp add: write_integer_def)
  then show ?thesis
    by (simp only: m pack_unsigned_4 [OF assms] and_then_Inr write_pair_UInt32)
qed

lemma write_integer_UInt64:
  assumes "0 \<le> v" "v \<le> 0xFFFFFFFFFFFFFFFF"
  shows "write_integer buf v (Marker UInt64) = Inr (buf @ 0xCF # be_bytes 8 v)"
proof -
  have m: "v AND 0xFFFFFFFFFFFFFFFF = v" using assms by (simp add: and_FFFFFFFFFFFFFFFF)
  have "write_integer buf v (Marker UInt64) =
      and_then (pack_unsigned 8 (v AND 0xFFFFFFFFFFFFFFFF)) (write_pair buf UInt64)"
    by (simp add: write_integer_def)
  then show ?thesis
    by (simp only: m pack_unsigned_8 [OF assms] and_then_Inr write_pair_UInt64)
qed

lemma write_any_int_ladder:
  "write_any_int buf v =
     (if 0xFFFFFFFFFFFFFFFF < v then Inl AssertionError
      else if v \<le> 0x7F then write_integer buf v (Marker PositiveFixInt)
      else if v \<le> 0xFFFF then write_integer buf v (Marker UInt16)
      else if v \<le> 0xFFFFFFFF then write_integer buf v (Marker UInt32)
      else write_integer buf v (Marker UInt64))"
  by (simp add: write_any_int_def)

lemma read_int_fix:
  "0 \<le> v \<Longrightarrow> v \<le> 0x7F \<Longrightarrow> read_int (word_of_int v # rest) = Inr (PyInt v, rest)"
  by (simp add: read_int_def read_and_advance_def unpack_unsigned_def uint_word_of_int small_and_80 and_7F)

lemma read_int_UInt16:
  assumes "0 \<le> v" "v \<le> 0xFFFF"
  shows "read_int (0xCD # be_bytes 2 v @ rest) = Inr (PyInt v, rest)"
proof -
  have u: "unpack_unsigned 2 (be_bytes 2 v) = Inr v"
    using assms by (intro unpack_pack_unsigned) simp_all
  have "read_int (0xCD # be_bytes 2 v @ rest) =
      and_then (unpack_unsigned 2 (be_bytes 2 v)) (\<lambda>x. Inr (PyInt x, rest))"
    by (simp add: read_int_def read_and_advance_def)
  then show ?thesis by (simp only: u and_then_Inr)
qed

lemma read_int_UInt32:
  assumes "0 \<le> v" "v \<le> 0xFFFFFFFF"
  shows "read_int (0xCE # be_bytes 4 v @ rest) = Inr (PyInt v, rest)"
proof -
  have u: "unpack_unsigned 4 (be_bytes 4 v) = Inr v"
    using assms by (intro unpack_pack_unsigned) simp_all
  have "read_int (0xCE # be_bytes 4 v @ rest) =
      and_then (unpack_unsigned 4 (be_bytes 4 v)) (\<lambda>x. Inr (PyInt x, rest))"
    by (simp add: read_int_def read_and_advance_def)
  then show ?thesis by (simp only: u and_then_Inr)
qed

lemma read_int_UInt64:
  assumes "0 \<le> v" "v \<le> 0xFFFFFFFFFFFFFFFF"
  shows "read_int (0xCF # be_bytes 8 v @ rest) = Inr (PyInt v, rest)"
proof -
  have u: "unpack_unsigned 8 (be_bytes 8 v) = Inr v"
    using assms by (intro unpack_pack_unsigned) simp_all
  have "read_int (0xCF # be_bytes 8 v @ rest) =
      and_then (unpack_unsigned 8 (be_bytes 8 v)) (\<lambda>x. Inr (PyInt x, rest))"
    by (simp add: read_int_def read_and_advance_def)
  then show ?thesis by (simp only: u and_then_Inr)
qed

lemma write_any_read_int_inverse:
  assumes "0 \<le> v" "v \<le> 0xFFFFFFFFFFFFFFFF"
  shows "\<exists>bs. write_any buf (PyInt v) = Inr (buf @ bs) \<and> read_int (bs @ rest) = Inr (PyInt v, rest)"
proof -
  consider "v \<le> 0x7F" | "0x7F < v" "v \<le> 0xFFFF" | "0xFFFF < v" "v \<le> 0xFFFFFFFF" | "0xFFFFFFFF < v"
    by linarith
  then show ?thesis
  proof cases
    case 1
    then have "write_any buf (PyInt v) = Inr (buf @ [word_of_int v])"
      using assms by (simp add: write_any_int_ladder write_integer_PositiveFixInt)
    moreover have "read_int ([word_of_int v] @ rest) = Inr (PyInt v, rest)"
      using 1 assms by (simp add: read_int_fix)
    ultimately show ?thesis by blast
  next
    case 2
    then have "write_any buf (PyInt v) = Inr (buf @ (0xCD # be_bytes 2 v))"
      using assms by (simp add: write_any_int_ladder write_integer_UInt16)
    moreover have "read_int ((0xCD # be_bytes 2 v) @ rest) = Inr (PyInt v, rest)"
      using 2 assms by (simp add: read_int_UInt16)
    ultimately show ?thesis by blast
  next
    case 3
    then have "write_any buf (PyInt v) = Inr (buf @ (0xCE # be_bytes 4 v))"
      using assms by (simp add: write_any_int_ladder write_integer_UInt32)
    moreover have "read_int ((0xCE # be_bytes 4 v) @ rest) = Inr (PyInt v, rest)"
      using 3 assms by (simp add: read_int_UInt32)
    ultimately show ?thesis by blast
  next
    case 4
    then have "write_any buf (PyInt v) = Inr (buf @ (0xCF # be_bytes 8 v))"
      using assms by (simp add: write_any_int_ladder write_integer_UInt64)
    moreover have "read_int ((0xCF # be_bytes 8 v) @ rest) = Inr (PyInt v, rest)"
      using 4 assms by (simp add: read_int_UInt64)
    ultimately show ?thesis by blast
  qed
qed

subsection \<open>Writing strings\<close>

lemma write_marker_Str8: "write_marker buf Str8 = Inr (buf @ [0xD9])"
  by (simp add: write_marker_def write_single_def pack_unsigned_def)

lemma write_marker_Str16: "write_marker buf Str16 = Inr (buf @ [0xDA])"
  by (simp add: write_marker_def write_single_def pack_unsigned_def)

lemma write_str_Str8:
  assumes "length s \<le> 0xFF"
  shows "write_str buf (Str s) (Marker Str8) =
    and_then (utf8_encode s) (\<lambda>p. Inr (buf @ 0xD9 # word_of_int (int (length s)) # p))"
proof -
  have m: "int (length s) AND 0xFF = int (length s)"
    using assms by (simp add: and_FF)
  have "write_str buf (Str s) (Marker Str8) = write_prefixed buf (Str s) Str8 1"
    by (simp add: write_str_def)
  also have "\<dots> = and_then (utf8_encode s) (\<lambda>p. Inr (buf @ 0xD9 # word_of_int (int (length s)) # p))"
    using assms
    by (simp add: write_prefixed_def write_marker_Str8 m pack_unsigned_def write_single_fun)
  finally show ?thesis .
qed

lemma write_str_Str16:
  assumes "length s \<le> 0xFFFF"
  shows "write_str buf (Str s) (Marker Str16) =
    and_then (utf8_encode s) (\<lambda>p. Inr (buf @ 0xDA # be_bytes 2 (int (length s)) @ p))"
proof -
  have m: "int (length s) AND 0xFFFF = int (length s)"
    using assms by (simp add: and_FFFF)
  have p: "pack_unsigned 2 (int (length s)) = Inr (be_bytes 2 (int (length s)))"
    using assms by (intro pack_unsigned_2) simp_all
  have "write_str buf (Str s) (Marker Str16) = write_prefixed buf (Str s) Str16 2"
    by (simp add: write_str_def)
  also have "\<dots> = and_then (utf8_encode s) (\<lambda>p. Inr (buf @ 0xDA # be_bytes 2 (int (length s)) @ p))"
    by (simp add: write_prefixed_def write_marker_Str16 m p write_single_fun)
  finally show ?thesis .
qed

lemma write_any_str_ladder:
  "write_any_str buf s =
     (if 0xFFFFFFFF \<le> length s then Inl AssertionError
      else if length s \<le> 0xFF then write_str buf (Str s) (Marker Str8)
      else if length s \<le> 0xFFFF then write_str buf (Str s) (Marker Str16)
      else write_str buf (Str s) (Marker FixStr))"
  by (simp add: write_any_str_def Let_def)

lemma utf8_encode_replicate_ascii:
  "c < 0x80 \<Longrightarrow> utf8_encode (replicate n c) = Inr (replicate n (of_nat c))"
  by (induction n) (simp_all add: utf8_char_def)

subsection \<open>Floats\<close>

text \<open>
  The literal \<^verbatim>\<open>3.14\<close> is the binary64 nearest to 3.14 (within half a unit in the last
  place, \<open>2 ^ 52\<close> units to 1 between 2 and 4), and it packs to the binary32
  \<^verbatim>\<open>4048f5c3\<close>.
\<close>

lemma float_3_14_nearest: "\<bar>f64_value float_3_14 - 314 / 100\<bar> < 1 / 2 ^ 52"
  by (simp add: f64_value_def float_defs float_3_14_def)

lemma pack_f_3_14: "pack_f float_3_14 = Inr [0x40, 0x48, 0xF5, 0xC3]"
  by (simp add: float_defs float_3_14_def be_bytes_numeral)

lemma pack_f_examples:
  "pack_f 0x4017FFFAC1D29DC7 = Inr [0x40, 0xBF, 0xFF, 0xD6]"
  "pack_f 0x408EDFD916872B02 = Inr [0x44, 0x76, 0xFE, 0xC9]"
  "pack_f 0x3FF9E353F7CED917 = Inr [0x3F, 0xCF, 0x1A, 0xA0]"
  by (simp_all add: float_defs be_bytes_numeral)

lemma write_float_3_14: "write_float [] float_3_14 (Marker Float32) = Inr [0xCA, 0x40, 0x48, 0xF5, 0xC3]"
  by (simp add: write_float_def pack_f_3_14 write_defs)

lemma read_float_3_14: "read_float [0xCA, 0x40, 0x48, 0xF5, 0xC3] = Inr (PyFloat 0x40091EB860000000, [])"
  by (simp add: read_defs float_defs)

lemma read_int_on_float: "read_int [0xCA, 0x40, 0x48, 0xF5, 0xC3] = Inr (PyNone, [0x40, 0x48, 0xF5, 0xC3])"
  by (simp add: read_defs)

text \<open>
  The fields of a pattern built from a sign, an exponent and a fraction are that sign,
  exponent and fraction.
\<close>

lemma div_field: "r < b \<Longrightarrow> (q * b + r) div b = (q::nat)"
  by simp

lemma mod_field: "r < b \<Longrightarrow> (q * b + r) mod b = (r::nat)"
  by simp

lemma f64_fields:
  assumes "s < 2" "E < 2 ^ 11" "M < 2 ^ 52"
  shows "f64_sign (of_nat (s * 2 ^ 63 + E * 2 ^ 52 + M)) = s"
    and "f64_exp (of_nat (s * 2 ^ 63 + E * 2 ^ 52 + M)) = E"
    and "f64_frac (of_nat (s * 2 ^ 63 + E * 2 ^ 52 + M)) = M"
proof -
  let ?x = "s * 2 ^ 63 + E * 2 ^ 52 + M"
  have r: "E * 2 ^ 52 + M < 2 ^ 63"
  proof -
    have "E * 2 ^ 52 \<le> (2 ^ 11 - 1) * 2 ^ 52"
      using assms(2) by (intro mult_le_mono1) simp
    then show ?thesis using assms(3) by simp
  qed
  have "?x < 2 ^ 64"
  proof -
    have "s * 2 ^ 63 \<le> 1 * 2 ^ 63"
      using assms(1) by (intro mult_le_mono1) simp
    then show ?thesis using r by simp
  qed
  then have u: "unat (of_nat ?x :: 64 word) = ?x"
    by (simp only: unat_of_nat) simp
  have d1: "?x div 2 ^ 63 = s"
    using div_field [OF r, of s] by (simp add: add.assoc)
  have eq: "?x = (s * 2 ^ 11 + E) * 2 ^ 52 + M"
    by (simp add: algebra_simps)
  have "?x div 2 ^ 52 = s * 2 ^ 11 + E"
    unfolding eq by (rule div_field [OF assms(3)])
  then have d2: "?x div 2 ^ 52 mod 2 ^ 11 = E"
    using mod_field [OF assms(2), of s] by simp
  have d3: "?x mod 2 ^ 52 = M"
    unfolding eq by (rule mod_field [OF assms(3)])
  show "f64_sign (of_nat ?x) = s"
    unfolding f64_sign_def u by (rule d1)
  show "f64_exp (of_nat ?x) = E"
    unfolding f64_exp_def u by (rule d2)
  show "f64_frac (of_nat ?x) = M"
    unfolding f64_frac_def u by (rule d3)
qed

lemma regroup_fields: "x * 2 ^ 31 + y * 2 ^ 23 + z = (x * 2 ^ 8 + y) * 2 ^ 23 + (z::nat)"
  by (simp add: algebra_simps)

lemma f32_decompose:
  fixes p :: "32 word"
  defines "u \<equiv> unat p"
  shows "u = u div 2 ^ 31 * 2 ^ 31 + u div 2 ^ 23 mod 2 ^ 8 * 2 ^ 23 + u mod 2 ^ 23"
    and "u div 2 ^ 31 < 2"
proof -
  have "u < 2 ^ 32"
    unfolding u_def using unsigned_less [of p, where ?'a = nat] by simp
  then show "u div 2 ^ 31 < 2"
    by (simp add: less_mult_imp_div_less)
  have a: "u div 2 ^ 31 = u div 2 ^ 23 div 2 ^ 8"
    by (simp add: div_mult2_eq [symmetric])
  show "u = u div 2 ^ 31 * 2 ^ 31 + u div 2 ^ 23 mod 2 ^ 8 * 2 ^ 23 + u mod 2 ^ 23"
    unfolding a by (simp only: regroup_fields div_mult_mod_eq)
qed

lemma f32_fields:
  assumes "s < 2" "e < 2 ^ 8" "m < 2 ^ 23"
    and u: "unat (p :: 32 word) = s * 2 ^ 31 + e * 2 ^ 23 + m"
  shows "unat p div 2 ^ 31 = s" and "unat p div 2 ^ 23 mod 2 ^ 8 = e" and "unat p mod 2 ^ 23 = m"
proof -
  let ?x = "s * 2 ^ 31 + e * 2 ^ 23 + m"
  have r: "e * 2 ^ 23 + m < 2 ^ 31"
  proof -
    have "e * 2 ^ 23 \<le> (2 ^ 8 - 1) * 2 ^ 23"
      using assms(2) by (intro mult_le_mono1) simp
    then show ?thesis using assms(3) by simp
  qed
  have eq: "?x = (s * 2 ^ 8 + e) * 2 ^ 23 + m"
    by (simp add: algebra_simps)
  show "unat p div 2 ^ 31 = s"
    unfolding u using div_field [OF r, of s] by (simp add: add.assoc)
  have "?x div 2 ^ 23 = s * 2 ^ 8 + e"
    unfolding eq by (rule div_field [OF assms(3)])
  then show "unat p div 2 ^ 23 mod 2 ^ 8 = e"
    unfolding u using mod_field [OF assms(2), of s] by simp
  show "unat p mod 2 ^ 23 = m"
    unfolding u eq by (rule mod_field [OF assms(3)])
qed

text \<open>
  Both conversions in terms of the fields; a number that is a multiple of \<open>2 ^ k\<close> is
  not rounded; the highest set bit of a positive number.
\<close>

lemma f32_to_f64_fields:
  assumes "s < 2" "e < 2 ^ 8" "m < 2 ^ 23"
    and u: "unat (p :: 32 word) = s * 2 ^ 31 + e * 2 ^ 23 + m"
  shows "f32_to_f64 p =
     (if e = 0xFF then
        (if m = 0 then of_nat (s * 2 ^ 63 + 0x7FF0000000000000)
         else of_nat (s * 2 ^ 63 + 0x7FF8000000000000 + m mod 2 ^ 22 * 2 ^ 29))
      else if e = 0 then
        (if m = 0 then of_nat (s * 2 ^ 63)
         else of_nat (s * 2 ^ 63 + (msb_pos m + 874) * 2 ^ 52 +
                (m - 2 ^ msb_pos m) * 2 ^ (52 - msb_pos m)))
      else of_nat (s * 2 ^ 63 + (e + 896) * 2 ^ 52 + m * 2 ^ 29))"
  unfolding f32_to_f64_def Let_def f32_fields [OF assms] by (simp del: msb_pos.simps)

lemma f64_to_f32_fields:
  assumes "f64_sign d = s" "f64_exp d = E" "f64_frac d = M"
  shows "f64_to_f32 d =
     (if E = 0x7FF then
        (if M = 0 then Inr (of_nat (s * 2 ^ 31 + 0x7F800000))
         else Inr (of_nat (s * 2 ^ 31 + 0x7FC00000 + M div 2 ^ 29 mod 2 ^ 22)))
      else if E = 0 then Inr (of_nat (s * 2 ^ 31))
      else if 0x7F800000 \<le> (if 897 \<le> E then (E - 897) * 2 ^ 23 + round_shift (2 ^ 52 + M) 29
                               else round_shift (2 ^ 52 + M) (926 - E))
        then Inl OverflowError
        else Inr (of_nat (s * 2 ^ 31 +
               (if 897 \<le> E then (E - 897) * 2 ^ 23 + round_shift (2 ^ 52 + M) 29
                else round_shift (2 ^ 52 + M) (926 - E)))))"
  unfolding f64_to_f32_def Let_def assms by simp

lemma round_shift_exact: "round_shift (q * 2 ^ k) k = q"
  by (simp add: round_shift_def)

lemma msb_pos_bounds: "0 < m \<Longrightarrow> 2 ^ msb_pos m \<le> m \<and> m < 2 ^ Suc (msb_pos m)"
proof (induction m rule: msb_pos.induct)
  case (1 n)
  show ?case
  proof (cases "n < 2")
    case True
    with "1.prems" have "n = 1" by simp
    then show ?thesis by simp
  next
    case False
    then have "0 < n div 2" by simp
    with "1.IH" False have ih: "2 ^ msb_pos (n div 2) \<le> n div 2" "n div 2 < 2 ^ Suc (msb_pos (n div 2))"
      by simp_all
    have s: "msb_pos n = Suc (msb_pos (n div 2))"
      using False by (subst msb_pos.simps) simp
    from ih show ?thesis
      unfolding s by (simp del: msb_pos.simps) linarith
  qed
qed

text \<open>
  Widening is exact: a binary32 that is not a NaN, widened to binary64 and narrowed
  again, is the same binary32. So a float that is a binary32 value survives
  \<^verbatim>\<open>struct.pack(">f")\<close> followed by \<^verbatim>\<open>struct.unpack(">f")\<close>.
\<close>

lemma f32_narrow_widen:
  assumes "\<not> f32_is_nan p"
  shows "f64_to_f32 (f32_to_f64 p) = Inr p"
proof -
  define s where "s = unat p div 2 ^ 31"
  define e where "e = unat p div 2 ^ 23 mod 2 ^ 8"
  define m where "m = unat p mod 2 ^ 23"
  have s: "s < 2" and e: "e < 2 ^ 8" and m: "m < 2 ^ 23"
    and u: "unat p = s * 2 ^ 31 + e * 2 ^ 23 + m"
    unfolding s_def e_def m_def using f32_decompose [of p] by simp_all
  have p: "p = of_nat (s * 2 ^ 31 + e * 2 ^ 23 + m)"
    unfolding u [symmetric] by simp
  have nan: "e = 0xFF \<Longrightarrow> m = 0"
    using assms unfolding f32_is_nan_def e_def m_def by simp
  note w = f32_to_f64_fields [OF s e m u]
  consider (inf) "e = 0xFF" | (zero) "e = 0" "m = 0" | (sub) "e = 0" "0 < m" | (normal) "0 < e" "e < 0xFF"
    using e by (cases "e = 0"; cases "m = 0"; cases "e = 0xFF") simp_all
  then show ?thesis
  proof cases
    case inf
    with nan have m0: "m = 0" by simp
    have w': "f32_to_f64 p = of_nat (s * 2 ^ 63 + 0x7FF * 2 ^ 52 + 0)"
      unfolding w using inf m0 by simp
    have "f64_to_f32 (f32_to_f64 p) = Inr (of_nat (s * 2 ^ 31 + 0x7F800000))"
      unfolding w'
      by (subst f64_to_f32_fields [OF f64_fields [of s "0x7FF" 0]]) (use s in simp_all)
    then show ?thesis
      unfolding p using inf m0 by simp
  next
    case zero
    have w': "f32_to_f64 p = of_nat (s * 2 ^ 63 + 0 * 2 ^ 52 + 0)"
      unfolding w using zero by simp
    have "f64_to_f32 (f32_to_f64 p) = Inr (of_nat (s * 2 ^ 31))"
      unfolding w'
      by (subst f64_to_f32_fields [OF f64_fields [of s 0 0]]) (use s in simp_all)
    then show ?thesis
      unfolding p using zero by simp
  next
    case sub
    define k where "k = msb_pos m"
    have k: "2 ^ k \<le> m" "m < 2 ^ Suc k"
      unfolding k_def using msb_pos_bounds [OF sub(2)] by simp_all
    have k22: "k \<le> 22"
    proof (rule ccontr)
      assume "\<not> k \<le> 22"
      then have "23 \<le> k" by simp
      then have "(2::nat) ^ 23 \<le> 2 ^ k"
        by (intro power_increasing) simp_all
      with k(1) m show False by simp
    qed
    define M where "M = (m - 2 ^ k) * 2 ^ (52 - k)"
    have split52: "(2::nat) ^ 52 = 2 ^ k * 2 ^ (52 - k)"
      using k22 by (simp add: power_add [symmetric])
    have sig: "2 ^ 52 + M = m * 2 ^ (52 - k)"
    proof -
      have "2 ^ k * 2 ^ (52 - k) + (m - 2 ^ k) * 2 ^ (52 - k) =
          (2 ^ k + (m - 2 ^ k)) * 2 ^ (52 - k)"
        by (rule add_mult_distrib [symmetric])
      also have "2 ^ k + (m - 2 ^ k) = m"
        using k(1) by (rule le_add_diff_inverse)
      finally show ?thesis
        unfolding M_def split52 .
    qed
    have M: "M < 2 ^ 52"
    proof -
      have "m - 2 ^ k < 2 ^ k" using k by simp
      then have "(m - 2 ^ k) * 2 ^ (52 - k) < 2 ^ k * 2 ^ (52 - k)"
        by (intro mult_strict_right_mono) simp_all
      then show ?thesis unfolding M_def split52 .
    qed
    have E: "k + 874 < 2 ^ 11" using k22 by simp
    have w': "f32_to_f64 p = of_nat (s * 2 ^ 63 + (k + 874) * 2 ^ 52 + M)"
      unfolding w M_def k_def using sub by (simp del: msb_pos.simps)
    have sh: "926 - (k + 874) = 52 - k" by simp
    have "f64_to_f32 (f32_to_f64 p) = Inr (of_nat (s * 2 ^ 31 + m))"
      unfolding w'
      apply (subst f64_to_f32_fields [OF f64_fields [OF s E M]])
      unfolding sig sh round_shift_exact
      using k22 m by simp
    then show ?thesis
      unfolding p using sub by simp
  next
    case normal
    have E: "e + 896 < 2 ^ 11" using normal by simp
    have M: "m * 2 ^ 29 < 2 ^ 52"
    proof -
      have "m * 2 ^ 29 < 2 ^ 23 * 2 ^ 29"
        using m by (intro mult_strict_right_mono) simp_all
      then show ?thesis by simp
    qed
    have w': "f32_to_f64 p = of_nat (s * 2 ^ 63 + (e + 896) * 2 ^ 52 + m * 2 ^ 29)"
      unfolding w using normal by simp
    have sig: "2 ^ 52 + m * 2 ^ 29 = (2 ^ 23 + m) * 2 ^ 29"
      by (simp add: algebra_simps)
    have mag: "(e + 896 - 897) * 2 ^ 23 + (2 ^ 23 + m) = e * 2 ^ 23 + m"
    proof -
      obtain e' where "e = Suc e'"
        using normal(1) by (cases e) simp_all
      then show ?thesis by simp
    qed
    have bound: "\<not> 0x7F800000 \<le> e * 2 ^ 23 + m"
    proof -
      have "e * 2 ^ 23 \<le> 254 * 2 ^ 23"
        using normal(2) by (intro mult_le_mono1) simp
      then show ?thesis using m by simp
    qed
    have "f64_to_f32 (f32_to_f64 p) = Inr (of_nat (s * 2 ^ 31 + (e * 2 ^ 23 + m)))"
      unfolding w'
      apply (subst f64_to_f32_fields [OF f64_fields [OF s E M]])
      unfolding sig round_shift_exact
      using normal bound by (simp add: mag)
    then show ?thesis
      unfolding p by (simp add: add.assoc)
  qed
qed

lemma MsgPackMarker_of_value_Float32 [simp]: "MsgPackMarker_of_value 0xCA = Some Float32"
  by (simp add: MsgPackMarker_of_value_def all_markers_def)

lemma write_pair_Float32: "write_pair buf Float32 = (\<lambda>bs. Inr (buf @ 0xCA # bs))"
  by (simp add: fun_eq_iff write_pair_def write_marker_def write_single_def pack_unsigned_def)

lemma write_float_Float32:
  "write_float buf x (Marker Float32) = and_then (pack_f x) (\<lambda>bs. Inr (buf @ 0xCA # bs))"
  by (simp add: write_float_def write_pair_Float32)

lemma unpack_f_be_bytes: "unpack_f (be_bytes 4 (uint (p :: 32 word))) = Inr (f32_to_f64 p)"
proof -
  have "uint p < 2 ^ 32"
    using unsigned_less [of p, where ?'a = int] by simp
  then have "from_be 0 (be_bytes 4 (uint p)) = uint p"
    by (simp add: from_be_be_bytes)
  then show ?thesis
    by (simp add: unpack_f_def)
qed

lemma read_float_Float32:
  "read_float (0xCA # be_bytes 4 (uint (p :: 32 word)) @ rest) = Inr (PyFloat (f32_to_f64 p), rest)"
proof -
  have "read_float (0xCA # be_bytes 4 (uint p) @ rest) =
      and_then (unpack_f (be_bytes 4 (uint p))) (\<lambda>x. Inr (PyFloat x, rest))"
    by (simp add: read_float_def read_and_advance_def unpack_unsigned_def)
  then show ?thesis
    by (simp only: unpack_f_be_bytes and_then_Inr)
qed

lemma roundtrip_float32:
  assumes "\<not> f32_is_nan p"
  shows "roundtrip (PyFloat (f32_to_f64 p))"
proof -
  have "pack_f (f32_to_f64 p) = Inr (be_bytes 4 (uint p))"
    by (simp add: pack_f_def f32_narrow_widen [OF assms])
  then have "write_any [] (PyFloat (f32_to_f64 p)) = Inr (0xCA # be_bytes 4 (uint p))"
    by (simp add: write_float_Float32)
  moreover have "read_float (0xCA # be_bytes 4 (uint p)) = Inr (PyFloat (f32_to_f64 p), [])"
    using read_float_Float32 [of p "[]"] by simp
  ultimately show ?thesis
    by (simp add: roundtrip_def)
qed

text \<open>
  The narrowing at its edges, as CPython packs the same patterns: the largest binary64
  that still rounds to the largest finite binary32 and the first one that overflows, the
  tie below the smallest subnormal (to even, that is to zero) and the first pattern above
  it, the carry from the subnormals into the smallest normal number, the infinities and
  the negative zero; and \<^verbatim>\<open>1e39\<close>, which \<^verbatim>\<open>_write_any\<close> cannot write.
\<close>

lemma pack_f_boundaries:
  "pack_f 0x47EFFFFFEFFFFFFF = Inr [0x7F, 0x7F, 0xFF, 0xFF]"
  "pack_f 0x47EFFFFFF0000000 = Inl OverflowError"
  "pack_f 0x36A6A09E667F3BCD = Inr [0x00, 0x00, 0x00, 0x01]"
  "pack_f 0x0000000000000001 = Inr [0x00, 0x00, 0x00, 0x00]"
  "pack_f 0x3690000000000000 = Inr [0x00, 0x00, 0x00, 0x00]"
  "pack_f 0x3690000000000001 = Inr [0x00, 0x00, 0x00, 0x01]"
  "pack_f 0x36A8000000000000 = Inr [0x00, 0x00, 0x00, 0x02]"
  "pack_f 0x380FFFFFFFFFFFFF = Inr [0x00, 0x80, 0x00, 0x00]"
  "pack_f 0x7FF0000000000000 = Inr [0x7F, 0x80, 0x00, 0x00]"
  "pack_f 0xFFF0000000000000 = Inr [0xFF, 0x80, 0x00, 0x00]"
  "pack_f 0x8000000000000000 = Inr [0x80, 0x00, 0x00, 0x00]"
  by (simp_all add: float_defs be_bytes_numeral)

lemma write_any_float_overflow: "write_any [] (PyFloat 0x48078287F49C4A1D) = Inl OverflowError"
  by (simp add: write_float_Float32 float_defs)

subsection \<open>The tests of the repository\<close>

text \<open>
  The model gives the bytes that the assertions of \<^verbatim>\<open>test_int\<close>, \<^verbatim>\<open>test_float\<close>,
  \<^verbatim>\<open>test_str\<close>, \<^verbatim>\<open>test_bin\<close>, \<^verbatim>\<open>test_array\<close> and \<^verbatim>\<open>test_mapping\<close> expect, one
  after the other in the same buffer as the tests write them, and the values they read
  back. The floats are the binary64 patterns of the literals 3.14, 5.99998, 987.981 and
  1.618.
\<close>

lemmas encoder_defs = write_any_int_def write_any_str_def write_integer_def write_float_def
  write_str_def write_prefixed_def write_nil_def write_bool_def write_array_head_def
  write_map_head_def arr_type_def utf8_char_def pack_f_3_14 pack_f_examples be_bytes_numeral

lemma test_int_writes:
  "write_integer [] 45 (Marker PositiveFixInt) = Inr [0x2D]"
  "write_integer [0x2D] (- 12) (Marker NegativeFixInt) = Inr [0x2D, 0xF4]"
  "write_integer [0x2D, 0xF4] 65538 (Marker UInt16) = Inr [0x2D, 0xF4, 0xCD, 0x00, 0x02]"
  "write_integer [0x2D, 0xF4, 0xCD, 0x00, 0x02] 4294967295 (Marker UInt32) = Inr [0x2D, 0xF4,
      0xCD, 0x00, 0x02, 0xCE, 0xFF, 0xFF, 0xFF, 0xFF]"
  "write_integer [0x2D, 0xF4, 0xCD, 0x00, 0x02, 0xCE, 0xFF, 0xFF, 0xFF, 0xFF] 4294967297
      (Marker UInt32) = Inr [0x2D, 0xF4, 0xCD, 0x00, 0x02, 0xCE, 0xFF, 0xFF, 0xFF, 0xFF, 0xCE,
      0x00, 0x00, 0x00, 0x01]"
  "write_integer [0x2D, 0xF4, 0xCD, 0x00, 0x02, 0xCE, 0xFF, 0xFF, 0xFF, 0xFF, 0xCE, 0x00,
      0x00, 0x00, 0x01] 2147483645 (Marker Int32) = Inr [0x2D, 0xF4, 0xCD, 0x00, 0x02, 0xCE, 0xFF,
      0xFF, 0xFF, 0xFF, 0xCE, 0x00, 0x00, 0x00, 0x01, 0xD2, 0x7F, 0xFF, 0xFF, 0xFD]"
  "write_integer [0x2D, 0xF4, 0xCD, 0x00, 0x02, 0xCE, 0xFF, 0xFF, 0xFF, 0xFF, 0xCE, 0x00,
      0x00, 0x00, 0x01, 0xD2, 0x7F, 0xFF, 0xFF, 0xFD] 2147483649 (Marker Int32) = Inr [0x2D, 0xF4,
      0xCD, 0x00, 0x02, 0xCE, 0xFF, 0xFF, 0xFF, 0xFF, 0xCE, 0x00, 0x00, 0x00, 0x01, 0xD2, 0x7F,
      0xFF, 0xFF, 0xFD, 0xD2, 0x80, 0x00, 0x00, 0x01]"
  by (simp_all add: write_integer_def write_defs be_bytes_numeral)

lemma test_int_reads:
  "read_int [0x2D, 0xF4, 0xCD, 0x00, 0x02, 0xCE, 0xFF, 0xFF, 0xFF, 0xFF, 0xCE, 0x00, 0x00,
      0x00, 0x01, 0xD2, 0x7F, 0xFF, 0xFF, 0xFD, 0xD2, 0x80, 0x00, 0x00, 0x01] = Inr (PyInt 45,
      [0xF4, 0xCD, 0x00, 0x02, 0xCE, 0xFF, 0xFF, 0xFF, 0xFF, 0xCE, 0x00, 0x00, 0x00, 0x01, 0xD2,
      0x7F, 0xFF, 0xFF, 0xFD, 0xD2, 0x80, 0x00, 0x00, 0x01])"
  "read_int [0xF4, 0xCD, 0x00, 0x02, 0xCE, 0xFF, 0xFF, 0xFF, 0xFF, 0xCE, 0x00, 0x00, 0x00,
      0x01, 0xD2, 0x7F, 0xFF, 0xFF, 0xFD, 0xD2, 0x80, 0x00, 0x00, 0x01] = Inr (PyInt (- 12),
      [0xCD, 0x00, 0x02, 0xCE, 0xFF, 0xFF, 0xFF, 0xFF, 0xCE, 0x00, 0x00, 0x00, 0x01, 0xD2, 0x7F,
      0xFF, 0xFF, 0xFD, 0xD2, 0x80, 0x00, 0x00, 0x01])"
  "read_int [0xCD, 0x00, 0x02, 0xCE, 0xFF, 0xFF, 0xFF, 0xFF, 0xCE, 0x00, 0x00, 0x00, 0x01,
      0xD2, 0x7F, 0xFF, 0xFF, 0xFD, 0xD2, 0x80, 0x00, 0x00, 0x01] = Inr (PyInt 2, [0xCE, 0xFF,
      0xFF, 0xFF, 0xFF, 0xCE, 0x00, 0x00, 0x00, 0x01, 0xD2, 0x7F, 0xFF, 0xFF, 0xFD, 0xD2, 0x80,
      0x00, 0x00, 0x01])"
  "read_int [0xCE, 0xFF, 0xFF, 0xFF, 0xFF, 0xCE, 0x00, 0x00, 0x00, 0x01, 0xD2, 0x7F, 0xFF,
      0xFF, 0xFD, 0xD2, 0x80, 0x00, 0x00, 0x01] = Inr (PyInt 4294967295, [0xCE, 0x00, 0x00, 0x00,
      0x01, 0xD2, 0x7F, 0xFF, 0xFF, 0xFD, 0xD2, 0x80, 0x00, 0x00, 0x01])"
  "read_int [0xCE, 0x00, 0x00, 0x00, 0x01, 0xD2, 0x7F, 0xFF, 0xFF, 0xFD, 0xD2, 0x80, 0x00,
      0x00, 0x01] = Inr (PyInt 1, [0xD2, 0x7F, 0xFF, 0xFF, 0xFD, 0xD2, 0x80, 0x00, 0x00, 0x01])"
  by (simp_all add: read_defs)

lemma test_float_writes:
  "write_float [] float_3_14 (Marker Float32) = Inr [0xCA, 0x40, 0x48, 0xF5, 0xC3]"
  "write_float [0xCA, 0x40, 0x48, 0xF5, 0xC3] 0x4017FFFAC1D29DC7 (Marker Float32) = Inr [0xCA,
      0x40, 0x48, 0xF5, 0xC3, 0xCA, 0x40, 0xBF, 0xFF, 0xD6]"
  "write_float [0xCA, 0x40, 0x48, 0xF5, 0xC3, 0xCA, 0x40, 0xBF, 0xFF, 0xD6] 0x408EDFD916872B02
      (Marker Float32) = Inr [0xCA, 0x40, 0x48, 0xF5, 0xC3, 0xCA, 0x40, 0xBF, 0xFF, 0xD6, 0xCA,
      0x44, 0x76, 0xFE, 0xC9]"
  by (simp_all add: write_float_def pack_f_3_14 pack_f_examples write_defs)

lemma test_float_reads:
  "read_float [0xCA, 0x40, 0x48, 0xF5, 0xC3, 0xCA, 0x40, 0xBF, 0xFF, 0xD6, 0xCA, 0x44, 0x76,
      0xFE, 0xC9] = Inr (PyFloat 0x40091EB860000000, [0xCA, 0x40, 0xBF, 0xFF, 0xD6, 0xCA, 0x44,
      0x76, 0xFE, 0xC9])"
  "read_float [0xCA, 0x40, 0xBF, 0xFF, 0xD6, 0xCA, 0x44, 0x76, 0xFE, 0xC9] = Inr (PyFloat
      0x4017FFFAC0000000, [0xCA, 0x44, 0x76, 0xFE, 0xC9])"
  "read_float [0xCA, 0x44, 0x76, 0xFE, 0xC9] = Inr (PyFloat 0x408EDFD920000000, [])"
  by (simp_all add: read_defs float_defs)

lemma test_str_fixstr:
  "write_str [] (Str [0x48, 0x65, 0x6C, 0x6C, 0x6F, 0x20, 0x77, 0x6F, 0x72, 0x6C, 0x64])
      (Marker FixStr) = Inr [0xAB, 0x48, 0x65, 0x6C, 0x6C, 0x6F, 0x20, 0x77, 0x6F, 0x72, 0x6C,
      0x64]"
  by (simp add: write_str_def write_defs utf8_char_def)

lemma test_str_LI_ru:
  "length LI_ru = 188 \<and>
   write_str [] (Str LI_ru) (Marker Str16) = Inr
    [0xDA, 0x00, 0xBC, 0xD0, 0x94, 0xD0, 0xB0, 0xD0, 0xB2, 0xD0, 0xBD, 0xD0, 0xBE, 0x20, 0xD0,
    0xB2, 0xD1, 0x8B, 0xD1, 0x8F, 0xD1, 0x81, 0xD0, 0xBD, 0xD0, 0xB5, 0xD0, 0xBD, 0xD0, 0xBE,
    0x2C, 0x20, 0xD1, 0x87, 0xD1, 0x82, 0xD0, 0xBE, 0x20, 0xD0, 0xBF, 0xD1, 0x80, 0xD0, 0xB8,
    0x20, 0xD0, 0xBE, 0xD1, 0x86, 0xD0, 0xB5, 0xD0, 0xBD, 0xD0, 0xBA, 0xD0, 0xB5, 0x20, 0xD0,
    0xB4, 0xD0, 0xB8, 0xD0, 0xB7, 0xD0, 0xB0, 0xD0, 0xB9, 0xD0, 0xBD, 0xD0, 0xB0, 0x20, 0xD0,
    0xB8, 0x20, 0xD0, 0xBA, 0xD0, 0xBE, 0xD0, 0xBC, 0xD0, 0xBF, 0xD0, 0xBE, 0xD0, 0xB7, 0xD0,
    0xB8, 0xD1, 0x86, 0xD0, 0xB8, 0xD0, 0xB8, 0x20, 0xD1, 0x87, 0xD0, 0xB8, 0xD1, 0x82, 0xD0,
    0xB0, 0xD0, 0xB5, 0xD0, 0xBC, 0xD1, 0x8B, 0xD0, 0xB9, 0x20, 0xD1, 0x82, 0xD0, 0xB5, 0xD0,
    0xBA, 0xD1, 0x81, 0xD1, 0x82, 0x20, 0xD0, 0xBC, 0xD0, 0xB5, 0xD1, 0x88, 0xD0, 0xB0, 0xD0,
    0xB5, 0xD1, 0x82, 0x20, 0xD1, 0x81, 0xD0, 0xBE, 0xD1, 0x81, 0xD1, 0x80, 0xD0, 0xB5, 0xD0,
    0xB4, 0xD0, 0xBE, 0xD1, 0x82, 0xD0, 0xBE, 0xD1, 0x87, 0xD0, 0xB8, 0xD1, 0x82, 0xD1, 0x8C,
    0xD1, 0x81, 0xD1, 0x8F, 0x2E, 0x4C, 0x6F, 0x72, 0x65, 0x6D, 0x20, 0x49, 0x70, 0x73, 0x75,
    0x6D, 0x20, 0xD0, 0xB8, 0xD1, 0x81, 0xD0, 0xBF, 0xD0, 0xBE, 0xD0, 0xBB, 0xD1, 0x8C, 0xD0,
    0xB7, 0xD1, 0x83, 0xD1, 0x8E, 0xD1, 0x82, 0x20, 0xD0, 0xBF, 0xD0, 0xBE, 0xD1, 0x82, 0xD0,
    0xBE, 0xD0, 0xBC, 0xD1, 0x83, 0x2C, 0x20, 0xD1, 0x87, 0xD1, 0x82, 0xD0, 0xBE, 0x20, 0xD1,
    0x82, 0xD0, 0xBE, 0xD1, 0x82, 0x20, 0xD0, 0xBE, 0xD0, 0xB1, 0xD0, 0xB5, 0xD1, 0x81, 0xD0,
    0xBF, 0xD0, 0xB5, 0xD1, 0x87, 0xD0, 0xB8, 0xD0, 0xB2, 0xD0, 0xB0, 0xD0, 0xB5, 0xD1, 0x82,
    0x20, 0xD0, 0xB1, 0xD0, 0xBE, 0xD0, 0xBB, 0xD0, 0xB5, 0xD0, 0xB5, 0x20, 0xD0, 0xB8, 0xD0,
    0xBB, 0xD0, 0xB8, 0x20, 0xD0, 0xBC, 0xD0, 0xB5, 0xD0, 0xBD, 0xD0, 0xB5, 0xD0, 0xB5, 0x20,
    0xD1, 0x81, 0xD1, 0x82, 0xD0, 0xB0, 0xD0, 0xBD, 0xD0, 0xB4, 0xD0, 0xB0, 0xD1, 0x80, 0xD1,
    0x82, 0xD0, 0xBD, 0xD0, 0xBE, 0xD0, 0xB5, 0x20, 0xD0, 0xB7, 0xD0, 0xB0, 0xD0, 0xBF, 0xD0,
    0xBE, 0xD0, 0xBB, 0xD0, 0xBD, 0xD0, 0xB5, 0xD0, 0xBD, 0xD0, 0xB8, 0xD0, 0xB5, 0x20, 0xD1,
    0x88, 0xD0, 0xB0, 0xD0, 0xB1, 0xD0, 0xBB, 0xD0, 0xBE, 0xD0, 0xBD, 0xD0, 0xB0]"
  by (simp add: LI_ru_def write_str_def write_prefixed_def write_defs utf8_char_def be_bytes_numeral)

lemma test_bin:
  "write_bin [] (Bytes [0x00, 0x01, 0x02, 0x03, 0x04, 0x05, 0x06, 0x07, 0x08, 0x09, 0x0A,
      0x0B, 0x0C, 0x0D, 0x0E, 0x0F, 0x10, 0x11, 0x12, 0x13, 0x14, 0x15, 0x16, 0x17, 0x18, 0x19,
      0x1A, 0x1B, 0x1C, 0x1D, 0x1E, 0x1F]) (Marker Bin8) = Inr [0xC4, 0x20, 0x00, 0x01, 0x02,
      0x03, 0x04, 0x05, 0x06, 0x07, 0x08, 0x09, 0x0A, 0x0B, 0x0C, 0x0D, 0x0E, 0x0F, 0x10, 0x11,
      0x12, 0x13, 0x14, 0x15, 0x16, 0x17, 0x18, 0x19, 0x1A, 0x1B, 0x1C, 0x1D, 0x1E, 0x1F]"
  "write_bin [0xC4, 0x20, 0x00, 0x01, 0x02, 0x03, 0x04, 0x05, 0x06, 0x07, 0x08, 0x09, 0x0A,
      0x0B, 0x0C, 0x0D, 0x0E, 0x0F, 0x10, 0x11, 0x12, 0x13, 0x14, 0x15, 0x16, 0x17, 0x18, 0x19,
      0x1A, 0x1B, 0x1C, 0x1D, 0x1E, 0x1F] (Bytes [0x41, 0x41, 0x41, 0x41, 0x41]) (Marker Bin16) =
      Inr [0xC4, 0x20, 0x00, 0x01, 0x02, 0x03, 0x04, 0x05, 0x06, 0x07, 0x08, 0x09, 0x0A, 0x0B,
      0x0C, 0x0D, 0x0E, 0x0F, 0x10, 0x11, 0x12, 0x13, 0x14, 0x15, 0x16, 0x17, 0x18, 0x19, 0x1A,
      0x1B, 0x1C, 0x1D, 0x1E, 0x1F, 0xC5, 0x00, 0x05, 0x41, 0x41, 0x41, 0x41, 0x41]"
  by (simp_all add: write_bin_def write_str_def write_prefixed_def write_defs be_bytes_numeral)

lemma test_array:
  "write_array [] [PyInt 0xCA, PyInt 0xFE, PyInt 0xBA, PyInt 0xBE, PyStr [0x48, 0x65, 0x6C,
      0x6C, 0x6F, 0x20, 0x77, 0x6F, 0x72, 0x6C, 0x64], PyStr [0x34, 0x35], PyNone, PyNone, PyFloat
      0x3FF9E353F7CED917, PyFloat float_3_14, PyDict [(PyStr [0x68, 0x65, 0x6C, 0x6C, 0x6F], PyStr
      [0x77, 0x6F, 0x72, 0x6C, 0x64])]] (Marker Array16) = Inr [0xDC, 0x00, 0x0B, 0xCD, 0x00,
      0xCA, 0xCD, 0x00, 0xFE, 0xCD, 0x00, 0xBA, 0xCD, 0x00, 0xBE, 0xD9, 0x0B, 0x48, 0x65, 0x6C,
      0x6C, 0x6F, 0x20, 0x77, 0x6F, 0x72, 0x6C, 0x64, 0xD9, 0x02, 0x34, 0x35, 0xC0, 0xC0, 0xCA,
      0x3F, 0xCF, 0x1A, 0xA0, 0xCA, 0x40, 0x48, 0xF5, 0xC3, 0x81, 0xD9, 0x05, 0x68, 0x65, 0x6C,
      0x6C, 0x6F, 0xD9, 0x05, 0x77, 0x6F, 0x72, 0x6C, 0x64]"
  by (simp add: encoder_defs write_defs)

lemma test_mapping:
  "write_map [] [(PyStr [0x48, 0x65, 0x6C, 0x6C, 0x6F], PyStr [0x57, 0x6F, 0x72, 0x6C, 0x64]),
      (PyStr [0x41], PyList [PyStr [0x42], PyStr [0x43], PyStr [0x44]]), (PyStr [0x75, 0x73, 0x65,
      0x72], PyDict [(PyStr [0x61, 0x62, 0x63], PyStr [0x63, 0x62, 0x61])]), (PyStr [0x63, 0x6F,
      0x6E, 0x6E, 0x65, 0x63, 0x74, 0x65, 0x64], PyBool False), (PyStr [0x61, 0x75, 0x74, 0x68,
      0x65, 0x6E, 0x74, 0x69, 0x63, 0x61, 0x74, 0x65, 0x64], PyBool True), (PyStr [0x70, 0x61,
      0x73, 0x73, 0x77, 0x6F, 0x72, 0x64], PyNone)] = Inr [0x86, 0xD9, 0x05, 0x48, 0x65, 0x6C,
      0x6C, 0x6F, 0xD9, 0x05, 0x57, 0x6F, 0x72, 0x6C, 0x64, 0xD9, 0x01, 0x41, 0x93, 0xD9, 0x01,
      0x42, 0xD9, 0x01, 0x43, 0xD9, 0x01, 0x44, 0xD9, 0x04, 0x75, 0x73, 0x65, 0x72, 0x81, 0xD9,
      0x03, 0x61, 0x62, 0x63, 0xD9, 0x03, 0x63, 0x62, 0x61, 0xD9, 0x09, 0x63, 0x6F, 0x6E, 0x6E,
      0x65, 0x63, 0x74, 0x65, 0x64, 0x00, 0xD9, 0x0D, 0x61, 0x75, 0x74, 0x68, 0x65, 0x6E, 0x74,
      0x69, 0x63, 0x61, 0x74, 0x65, 0x64, 0x01, 0xD9, 0x08, 0x70, 0x61, 0x73, 0x73, 0x77, 0x6F,
      0x72, 0x64, 0xC0]"
  by (simp add: encoder_defs write_defs)

subsection \<open>Values that do not survive the round trip\<close>

lemma str_not_roundtrip: "\<not> roundtrip (PyStr [0x61])"
  by (simp add: roundtrip_def write_any_str_def write_str_def write_prefixed_def write_defs utf8_char_def read_defs)

lemma negative_int_not_roundtrip: "\<not> roundtrip (PyInt (-1))"
  by (simp add: roundtrip_def write_any_int_def write_integer_def write_defs read_defs)

lemma float_not_roundtrip: "\<not> roundtrip (PyFloat float_3_14)"
  by (simp add: roundtrip_def write_float_3_14 read_float_3_14 read_int_on_float) (simp add: float_3_14_def)

section \<open>The claims\<close>

text \<open>
  C1 (as amended): for every integer \<open>v\<close> from 0 to \<open>2 ^ 64 - 1\<close>, \<^verbatim>\<open>read_int\<close>
  applied to the bytes that \<^verbatim>\<open>_write_any\<close> writes for \<open>v\<close> returns \<open>v\<close> and consumes
  exactly those bytes, whatever was written before and whatever follows; and for every
  float that is a binary32 value and not a NaN, \<^verbatim>\<open>read_float\<close> applied to the bytes that
  \<^verbatim>\<open>_write_any\<close> writes for it returns that float.
\<close>

theorem roundtrip_nonneg_int_and_float32:
  "(0 \<le> v \<and> v \<le> 0xFFFFFFFFFFFFFFFF \<longrightarrow>
      roundtrip (PyInt v) \<and>
      (\<exists>bs. write_any buf (PyInt v) = Inr (buf @ bs) \<and>
            read_int (bs @ rest) = Inr (PyInt v, rest))) \<and>
   (\<not> f32_is_nan p \<longrightarrow> roundtrip (PyFloat (f32_to_f64 p)))"
proof (intro conjI impI)
  assume a: "0 \<le> v \<and> v \<le> 0xFFFFFFFFFFFFFFFF"
  then obtain bs where "write_any [] (PyInt v) = Inr ([] @ bs)"
      "read_int (bs @ []) = Inr (PyInt v, [])"
    using write_any_read_int_inverse [of v "[]" "[]"] by blast
  then show "roundtrip (PyInt v)"
    by (simp add: roundtrip_def)
  from a show "\<exists>bs. write_any buf (PyInt v) = Inr (buf @ bs) \<and>
      read_int (bs @ rest) = Inr (PyInt v, rest)"
    using write_any_read_int_inverse [of v buf rest] by blast
next
  assume "\<not> f32_is_nan p"
  then show "roundtrip (PyFloat (f32_to_f64 p))"
    by (rule roundtrip_float32)
qed

theorem roundtrip_nonneg_int_and_float32_witness:
  "roundtrip (PyInt 300) \<and> roundtrip (PyFloat 0x40091EB860000000)"
proof -
  have n: "\<not> f32_is_nan 0x4048F5C3"
    by (simp add: f32_is_nan_def)
  have w: "f32_to_f64 0x4048F5C3 = 0x40091EB860000000"
    by (simp add: f32_to_f64_def)
  have "roundtrip (PyInt 300)"
    using roundtrip_nonneg_int_and_float32 [of 300 "[]" "[]" 0] by simp
  moreover have "roundtrip (PyFloat (f32_to_f64 0x4048F5C3))"
    using roundtrip_nonneg_int_and_float32 [of 0 "[]" "[]" "0x4048F5C3"] n by blast
  ultimately show ?thesis
    unfolding w by simp
qed

text \<open>
  C1 as stated fails: \<^verbatim>\<open>MPRead\<close> has no read method for a string (both methods fall
  through their \<^verbatim>\<open>match\<close> and give \<^verbatim>\<open>None\<close>), the integer -1 is written as the
  positive fixint 0x7F and read as 127, and the float 3.14 is written as a binary32 and
  read back as 3.140000104904175.
\<close>

theorem roundtrip_counterexample:
  "\<not> roundtrip (PyStr [0x61]) \<and> \<not> roundtrip (PyInt (- 1)) \<and> \<not> roundtrip (PyFloat float_3_14)"
  using str_not_roundtrip negative_int_not_roundtrip float_not_roundtrip by simp

text \<open>
  C2 (as amended): for an integer \<open>v\<close> from 0 on, \<^verbatim>\<open>_write_any\<close> selects positive
  fixint (the single byte \<open>v\<close>) up to 0x7F, uint16 (0xCD and two bytes big-endian) from
  0x80 to 0xFFFF, uint32 (0xCE and four bytes) from 0x10000 to 0xFFFFFFFF, uint64 (0xCF
  and eight bytes) from 0x100000000 to \<open>2 ^ 64 - 1\<close>, and fails on its assertion above
  that. It never selects an 8-bit or a signed family.
\<close>

theorem write_any_int_family:
  "(0 \<le> v \<and> v \<le> 0x7F \<longrightarrow>
      write_any buf (PyInt v) = write_integer buf v (Marker PositiveFixInt) \<and>
      write_any buf (PyInt v) = Inr (buf @ [word_of_int v])) \<and>
   (0x80 \<le> v \<and> v \<le> 0xFFFF \<longrightarrow>
      write_any buf (PyInt v) = write_integer buf v (Marker UInt16) \<and>
      write_any buf (PyInt v) = Inr (buf @ 0xCD # be_bytes 2 v)) \<and>
   (0x10000 \<le> v \<and> v \<le> 0xFFFFFFFF \<longrightarrow>
      write_any buf (PyInt v) = write_integer buf v (Marker UInt32) \<and>
      write_any buf (PyInt v) = Inr (buf @ 0xCE # be_bytes 4 v)) \<and>
   (0x100000000 \<le> v \<and> v \<le> 0xFFFFFFFFFFFFFFFF \<longrightarrow>
      write_any buf (PyInt v) = write_integer buf v (Marker UInt64) \<and>
      write_any buf (PyInt v) = Inr (buf @ 0xCF # be_bytes 8 v)) \<and>
   (0xFFFFFFFFFFFFFFFF < v \<longrightarrow> write_any buf (PyInt v) = Inl AssertionError)"
proof (intro conjI impI)
  assume "0 \<le> v \<and> v \<le> 0x7F"
  then show "write_any buf (PyInt v) = write_integer buf v (Marker PositiveFixInt)"
    by (simp add: write_any_int_ladder)
  with \<open>0 \<le> v \<and> v \<le> 0x7F\<close> show "write_any buf (PyInt v) = Inr (buf @ [word_of_int v])"
    by (simp add: write_integer_PositiveFixInt)
next
  assume a: "0x80 \<le> v \<and> v \<le> 0xFFFF"
  then show "write_any buf (PyInt v) = write_integer buf v (Marker UInt16)"
    by (simp add: write_any_int_ladder)
  with a show "write_any buf (PyInt v) = Inr (buf @ 0xCD # be_bytes 2 v)"
    by (simp add: write_integer_UInt16)
next
  assume a: "0x10000 \<le> v \<and> v \<le> 0xFFFFFFFF"
  then show "write_any buf (PyInt v) = write_integer buf v (Marker UInt32)"
    by (simp add: write_any_int_ladder)
  with a show "write_any buf (PyInt v) = Inr (buf @ 0xCE # be_bytes 4 v)"
    by (simp add: write_integer_UInt32)
next
  assume a: "0x100000000 \<le> v \<and> v \<le> 0xFFFFFFFFFFFFFFFF"
  then show "write_any buf (PyInt v) = write_integer buf v (Marker UInt64)"
    by (simp add: write_any_int_ladder)
  with a show "write_any buf (PyInt v) = Inr (buf @ 0xCF # be_bytes 8 v)"
    by (simp add: write_integer_UInt64)
next
  assume "0xFFFFFFFFFFFFFFFF < v"
  then show "write_any buf (PyInt v) = Inl AssertionError"
    by (simp add: write_any_int_ladder)
qed

theorem write_any_int_family_witness:
  "write_any [] (PyInt 45) = Inr [0x2D] \<and>
   write_any [] (PyInt 0xCA) = Inr [0xCD, 0x00, 0xCA] \<and>
   write_any [] (PyInt 0x10000) = Inr [0xCE, 0x00, 0x01, 0x00, 0x00] \<and>
   write_any [] (PyInt 0x100000000) = Inr [0xCF, 0x00, 0x00, 0x00, 0x01, 0x00, 0x00, 0x00, 0x00] \<and>
   write_any [] (PyInt 0x10000000000000000) = Inl AssertionError"
proof -
  have w1: "write_any [] (PyInt 45) = Inr ([] @ [word_of_int 45])"
    using write_any_int_family [of 45 "[]"] by auto
  have w2: "write_any [] (PyInt 0xCA) = Inr ([] @ 0xCD # be_bytes 2 0xCA)"
    using write_any_int_family [of "0xCA" "[]"] by auto
  have w3: "write_any [] (PyInt 0x10000) = Inr ([] @ 0xCE # be_bytes 4 0x10000)"
    using write_any_int_family [of "0x10000" "[]"] by auto
  have w4: "write_any [] (PyInt 0x100000000) = Inr ([] @ 0xCF # be_bytes 8 0x100000000)"
    using write_any_int_family [of "0x100000000" "[]"] by auto
  have w5: "write_any [] (PyInt 0x10000000000000000) = Inl AssertionError"
    using write_any_int_family [of "0x10000000000000000" "[]"] by auto
  have b2: "be_bytes 2 0xCA = [0x00, 0xCA]"
    by (simp add: be_bytes_numeral)
  have b3: "be_bytes 4 0x10000 = [0x00, 0x01, 0x00, 0x00]"
    by (simp add: be_bytes_numeral)
  have b4: "be_bytes 8 0x100000000 = [0x00, 0x00, 0x00, 0x01, 0x00, 0x00, 0x00, 0x00]"
    by (simp add: be_bytes_numeral)
  show ?thesis
    unfolding w1 w2 w3 w4 w5 b2 b3 b4 by simp
qed

text \<open>
  C2 as stated fails: for 0x80 the specification selects uint8 (marker 0xCC), the code
  writes uint16; for -1 the specification selects negative fixint (the byte 0xFF), the
  code writes the positive fixint 0x7F.
\<close>

theorem int_family_counterexample:
  "spec_integer_marker 0x80 = Some UInt8 \<and> marker_value UInt8 = 0xCC \<and>
   write_any [] (PyInt 0x80) = Inr [0xCD, 0x00, 0x80] \<and>
   spec_integer_marker (- 1) = Some NegativeFixInt \<and>
   write_any [] (PyInt (- 1)) = Inr [0x7F]"
  by (simp add: spec_integer_marker_def write_any_int_def write_integer_def write_defs be_bytes_numeral)

text \<open>
  C3 (as amended): for a string of \<open>n\<close> code points, \<^verbatim>\<open>_write_any\<close> selects str8 (0xD9,
  one length byte, then the UTF-8 payload) when \<open>n\<close> is at most 0xFF, also when \<open>n\<close> is
  at most 31, str16 (0xDA, two length bytes big-endian, then the payload) when \<open>n\<close> is
  from 0x100 to 0xFFFF, and fails on its assertion when \<open>n\<close> is above 0xFFFFFFFF. In both
  families the length prefix comes before the payload; a string that cannot be encoded
  to UTF-8 raises the error of the encoding.
\<close>

theorem write_any_str_family:
  "(length s \<le> 0xFF \<longrightarrow>
      write_any buf (PyStr s) = write_str buf (Str s) (Marker Str8) \<and>
      write_any buf (PyStr s) =
        and_then (utf8_encode s) (\<lambda>p. Inr (buf @ 0xD9 # word_of_int (int (length s)) # p))) \<and>
   (0xFF < length s \<and> length s \<le> 0xFFFF \<longrightarrow>
      write_any buf (PyStr s) = write_str buf (Str s) (Marker Str16) \<and>
      write_any buf (PyStr s) =
        and_then (utf8_encode s) (\<lambda>p. Inr (buf @ 0xDA # be_bytes 2 (int (length s)) @ p))) \<and>
   (0xFFFFFFFF < length s \<longrightarrow> write_any buf (PyStr s) = Inl AssertionError)"
proof (intro conjI impI)
  assume a: "length s \<le> 0xFF"
  then show "write_any buf (PyStr s) = write_str buf (Str s) (Marker Str8)"
    by (simp add: write_any_str_ladder)
  with a show "write_any buf (PyStr s) =
      and_then (utf8_encode s) (\<lambda>p. Inr (buf @ 0xD9 # word_of_int (int (length s)) # p))"
    by (simp only: write_str_Str8)
next
  assume a: "0xFF < length s \<and> length s \<le> 0xFFFF"
  then show "write_any buf (PyStr s) = write_str buf (Str s) (Marker Str16)"
    by (simp add: write_any_str_ladder)
  with a show "write_any buf (PyStr s) =
      and_then (utf8_encode s) (\<lambda>p. Inr (buf @ 0xDA # be_bytes 2 (int (length s)) @ p))"
    by (simp only: write_str_Str16)
next
  assume "0xFFFFFFFF < length s"
  then show "write_any buf (PyStr s) = Inl AssertionError"
    by (simp add: write_any_str_ladder)
qed

theorem write_any_str_family_witness:
  "write_any [] (PyStr [0x48, 0x69]) = Inr [0xD9, 0x02, 0x48, 0x69] \<and>
   write_any [] (PyStr (replicate 256 0x61)) = Inr (0xDA # 0x01 # 0x00 # replicate 256 0x61) \<and>
   write_any [] (PyStr (replicate 4294967296 0x61)) = Inl AssertionError"
proof -
  have w1: "write_any [] (PyStr [0x48, 0x69]) =
      and_then (utf8_encode [0x48, 0x69]) (\<lambda>p. Inr ([] @ 0xD9 # word_of_int (int (length [0x48, 0x69 :: nat])) # p))"
    using write_any_str_family [of "[0x48, 0x69]" "[]"] by auto
  have w2: "write_any [] (PyStr (replicate 256 0x61)) =
      and_then (utf8_encode (replicate 256 0x61))
        (\<lambda>p. Inr ([] @ 0xDA # be_bytes 2 (int (length (replicate 256 (0x61 :: nat)))) @ p))"
    using write_any_str_family [of "replicate 256 0x61" "[]"] by auto
  have w3: "write_any [] (PyStr (replicate 4294967296 0x61)) = Inl AssertionError"
    using write_any_str_family [of "replicate 4294967296 0x61" "[]"] by auto
  have u1: "utf8_encode [0x48, 0x69] = Inr [0x48, 0x69]"
    by (simp add: utf8_char_def)
  have u2: "utf8_encode (replicate 256 0x61) = Inr (replicate 256 0x61)"
    using utf8_encode_replicate_ascii [of "0x61" 256] by simp
  have b2: "be_bytes 2 256 = [0x01, 0x00]"
    by (simp add: be_bytes_numeral)
  show ?thesis
    unfolding w1 w2 w3 u1 u2 by (simp add: b2)
qed

text \<open>
  C3 as stated fails: for a string of length 1 the specification selects fixstr (marker
  byte 0xA1), the code writes str8.
\<close>

theorem str_family_counterexample:
  "spec_string_marker (length [0x61 :: nat]) = Some FixStr \<and> marker_value FixStr = 0xA0 \<and>
   write_any [] (PyStr [0x61]) = Inr [0xD9, 0x01, 0x61]"
  by (simp add: spec_string_marker_def write_any_str_def write_str_def write_prefixed_def
      write_defs utf8_char_def)

text \<open>
  C4: the length field that \<^verbatim>\<open>write_str\<close> writes is the number of payload bytes. The
  code writes the number of code points: for the one-character string U+00E9 the str8
  length byte is 1 and two payload bytes follow.
\<close>

theorem write_str_length_field_counts_code_points:
  "write_str [] (Str [0xE9]) (Marker Str8) = Inr [0xD9, 0x01, 0xC3, 0xA9]"
  by (simp add: write_str_def write_prefixed_def write_defs utf8_char_def)

text \<open>
  C5: \<^verbatim>\<open>_write_any\<close> writes 0xC3 for true and 0xC2 for false. The code writes 0x01 and
  0x00: a boolean takes the integer branch. \<^verbatim>\<open>write_bool\<close>, called directly, writes 0xC3
  and 0xC2.
\<close>

theorem write_any_bool_takes_int_branch:
  "write_any [] (PyBool True) = Inr [0x01] \<and> write_any [] (PyBool False) = Inr [0x00] \<and>
   write_bool [] True = Inr [0xC3] \<and> write_bool [] False = Inr [0xC2]"
  by (simp add: write_any_int_def write_integer_def write_bool_def write_defs)

text \<open>
  C6: \<^verbatim>\<open>read_int\<close> on an integer marker and its payload returns the integer. For the
  markers 0xCC and 0xD0 the code returns the one-item tuple of \<^verbatim>\<open>struct.unpack\<close>, not
  the integer.
\<close>

theorem read_int_8bit_returns_tuple:
  "read_int [0xCC, 0x05] = Inr (PyTuple [PyInt 5], []) \<and>
   read_int [0xD0, 0xFB] = Inr (PyTuple [PyInt (- 5)], [])"
  by (simp add: read_defs)

text \<open>
  C7: the concrete encodings of section 8: 45 as positive fixint is \<^verbatim>\<open>2d\<close>, -12 as
  negative fixint is \<^verbatim>\<open>f4\<close>, 65538 as uint16 is \<^verbatim>\<open>cd0002\<close>, and the float 3.14 as
  float32 is \<^verbatim>\<open>ca4048f5c3\<close>.
\<close>

theorem section8_encodings:
  "write_integer [] 45 (Marker PositiveFixInt) = Inr [0x2D] \<and>
   write_integer [] (- 12) (Marker NegativeFixInt) = Inr [0xF4] \<and>
   write_integer [] 65538 (Marker UInt16) = Inr [0xCD, 0x00, 0x02] \<and>
   write_float [] float_3_14 (Marker Float32) = Inr [0xCA, 0x40, 0x48, 0xF5, 0xC3]"
  by (simp add: write_integer_def write_float_def pack_f_3_14 write_defs be_bytes_numeral)

text \<open>
  C8: decoding an empty buffer and decoding the byte 0xC1 both fail with an explicit
  error. In the code the empty buffer raises \<^verbatim>\<open>struct.error\<close>, and a byte that is no
  member of the marker table (0x81) raises \<^verbatim>\<open>ValueError\<close>, but 0xC1 is the member
  \<^verbatim>\<open>UNUSED\<close>: \<^verbatim>\<open>read_int\<close> falls through its \<^verbatim>\<open>match\<close> and returns \<^verbatim>\<open>None\<close>.
\<close>

theorem read_int_reserved_marker_returns_None:
  "read_int [0xC1] = Inr (PyNone, []) \<and> read_int [] = Inl StructError \<and>
   read_int [0x81] = Inl ValueError"
  by (simp add: read_defs)

text \<open>
  C9: a string of exactly \<open>2 ^ 32 - 1\<close> characters is encoded. In the code the
  assertion of \<^verbatim>\<open>_write_any\<close> is the strict \<^verbatim>\<open>length < 0xFFFFFFFF\<close>, and such a string
  raises \<^verbatim>\<open>AssertionError\<close>.
\<close>

theorem write_any_str_rejects_max_length:
  "write_any buf (PyStr (replicate 4294967295 c)) = Inl AssertionError"
  by (simp add: write_any_str_def)

text \<open>
  C10: for every integer value and every marker outside the integer families,
  \<^verbatim>\<open>write_integer\<close> raises nothing and returns with the buffer unchanged.
\<close>

theorem write_integer_other_marker_noop:
  "m \<notin> integer_markers \<Longrightarrow> write_integer buf v (Marker m) = Inr buf"
  by (cases m) (simp_all add: write_integer_def integer_markers_def)

theorem write_integer_other_marker_noop_witness:
  "NilMarker \<notin> integer_markers \<and> write_integer [0x2D] (- 7) (Marker NilMarker) = Inr [0x2D] \<and>
   Str8 \<notin> integer_markers \<and> write_integer [] 300 (Marker Str8) = Inr []"
  using write_integer_other_marker_noop [of NilMarker "[0x2D]" "- 7"]
    write_integer_other_marker_noop [of Str8 "[]" 300]
  by (simp add: integer_markers_def)

end
